theory Spec2Isabelle
  imports Main "HOL-Library.List_Lexorder" "HOL-Library.Char_ord"
begin

section \<open>Python values and exceptions\<close>

text \<open>
  The exceptions that the code of \<^verbatim>\<open>lkgm_manager.py\<close> raises, catches or lets pass.
  \<open>RunCommandError\<close>, \<open>GitCommandException\<close> and \<open>GenerateBuildSpecException\<close> carry
  their message; \<open>OtherError\<close> stands for any other exception of a collaborator
  (an \<^verbatim>\<open>IOError\<close> of the file system, for instance).
\<close>

datatype py_error =
    AssertionError
  | TypeError
  | ValueError
  | KeyError
  | AttributeError
  | MalformedVersion
  | RunCommandError string
  | GitCommandException string
  | GenerateBuildSpecException string
  | OtherError string

text \<open>
  The dynamically typed values that reach the code: \<^verbatim>\<open>None\<close>, a \<^verbatim>\<open>str\<close>, a bound
  method (what \<^verbatim>\<open>version_info.VersionString\<close> without parentheses is), and a version
  object \<open>PyVersion text pfx\<close> of the absent module \<^verbatim>\<open>manifest_version\<close> that
  concatenates and prints as \<open>text\<close> and answers \<^verbatim>\<open>DirPrefix()\<close> with \<open>pfx\<close>.
\<close>

datatype py_value = PyNone | PyStr string | PyMethod | PyVersion string string

fun truthy :: "py_value \<Rightarrow> bool" where
  "truthy PyNone = False"
| "truthy (PyStr s) = (s \<noteq> [])"
| "truthy PyMethod = True"
| "truthy (PyVersion t p) = True"

text \<open>\<^verbatim>\<open>'%s' % v\<close> for these values (the text of a bound method is not needed).\<close>

fun py_str :: "py_value \<Rightarrow> string" where
  "py_str PyNone = ''None''"
| "py_str (PyStr s) = s"
| "py_str PyMethod = ''<bound method>''"
| "py_str (PyVersion t p) = t"

section \<open>Decimal digits\<close>

definition is_digit :: "char \<Rightarrow> bool" where
  "is_digit c = (48 \<le> (of_char c :: nat) \<and> (of_char c :: nat) \<le> 57)"

definition digit_char :: "nat \<Rightarrow> char" where
  "digit_char d = char_of (48 + d)"

definition digit_val :: "char \<Rightarrow> nat" where
  "digit_val c = of_char c - 48"

text \<open>\<^verbatim>\<open>str(n)\<close> of a non-negative integer, and \<^verbatim>\<open>int(s)\<close> of a run of digits.\<close>

fun digits_of_nat :: "nat \<Rightarrow> string" where
  "digits_of_nat n =
     (if n < 10 then [digit_char n] else digits_of_nat (n div 10) @ [digit_char (n mod 10)])"

declare digits_of_nat.simps [simp del]

definition nat_of_digits :: "string \<Rightarrow> nat" where
  "nat_of_digits s = foldl (\<lambda>a c. 10 * a + digit_val c) 0 s"

definition str_int :: "int \<Rightarrow> string" where
  "str_int n = (if n < 0 then CHR ''-'' # digits_of_nat (nat (- n)) else digits_of_nat (nat n))"

section \<open>The pattern \<^verbatim>\<open>(\d+\.\d+\.\d+\.\d+)(?:-rc(\d+))?\<close>\<close>

text \<open>
  \<^verbatim>\<open>\d+\<close> is greedy. In this pattern a run of digits is followed by a dot, by the
  end of the pattern or by the optional suffix, none of which starts with a digit, so
  the longest run is the only one that can match and no backtracking is needed.
\<close>

definition match_num :: "string \<Rightarrow> (string \<times> string) option" where
  "match_num s =
     (let d = takeWhile is_digit s
      in if d = [] then None else Some (d, dropWhile is_digit s))"

definition match_lit :: "string \<Rightarrow> string \<Rightarrow> string option" where
  "match_lit p s = (if take (length p) s = p then Some (drop (length p) s) else None)"

definition match_version :: "string \<Rightarrow> ((string \<times> string \<times> string \<times> string) \<times> string) option" where
  "match_version s =
     (case match_num s of None \<Rightarrow> None | Some (a, r1) \<Rightarrow>
      (case match_lit ''.'' r1 of None \<Rightarrow> None | Some r2 \<Rightarrow>
      (case match_num r2 of None \<Rightarrow> None | Some (b, r3) \<Rightarrow>
      (case match_lit ''.'' r3 of None \<Rightarrow> None | Some r4 \<Rightarrow>
      (case match_num r4 of None \<Rightarrow> None | Some (c, r5) \<Rightarrow>
      (case match_lit ''.'' r5 of None \<Rightarrow> None | Some r6 \<Rightarrow>
      (case match_num r6 of None \<Rightarrow> None | Some (d, r7) \<Rightarrow>
         Some ((a, b, c, d), r7))))))))"

definition version_text :: "string \<times> string \<times> string \<times> string \<Rightarrow> string" where
  "version_text v = (case v of (a, b, c, d) \<Rightarrow> a @ ''.'' @ b @ ''.'' @ c @ ''.'' @ d)"

text \<open>
  A match of \<open>LKGM_RE\<close> at the start of the text: group 1 (the four runs of digits)
  and group 2 (the digits of the \<^verbatim>\<open>-rc\<close> suffix, \<open>None\<close> when the optional part did
  not take part in the match).
\<close>

definition match_LKGM :: "string \<Rightarrow> ((string \<times> string \<times> string \<times> string) \<times> string option) option" where
  "match_LKGM s =
     (case match_version s of None \<Rightarrow> None | Some (v, r) \<Rightarrow>
      (case match_lit ''-rc'' r of None \<Rightarrow> Some (v, None) | Some r' \<Rightarrow>
      (case match_num r' of None \<Rightarrow> Some (v, None) | Some (n, r'') \<Rightarrow> Some (v, Some n))))"

text \<open>\<^verbatim>\<open>re.search\<close>: the match at the leftmost position where there is one.\<close>

fun re_search :: "(string \<Rightarrow> 'a option) \<Rightarrow> string \<Rightarrow> 'a option" where
  "re_search m [] = m []"
| "re_search m (c # cs) = (case m (c # cs) of Some r \<Rightarrow> Some r | None \<Rightarrow> re_search m cs)"

section \<open>VersionInfo\<close>

record version_info =
  ver_maj :: nat
  ver_min :: nat
  ver_sp :: nat
  ver_patch :: nat

text \<open>
  Modelled from the spec: the class \<^verbatim>\<open>manifest_version.VersionInfo\<close>, which
  \<^verbatim>\<open>_LKGMCandidateInfo\<close> extends, is not among the sources. The spec has a Version as
  four non-negative integers, \<open>Parse\<close> extracting them from the pattern
  \<^verbatim>\<open>\d+\.\d+\.\d+\.\d+\<close> and failing with \<open>MalformedVersion\<close> when it is absent, and the
  string form \<^verbatim>\<open>{major}.{minor}.{servicepack}.{patch}\<close>.
\<close>

definition VersionInfo_Parse :: "string \<Rightarrow> py_error + version_info" where
  "VersionInfo_Parse text =
     (case re_search match_version text of
        None \<Rightarrow> Inl MalformedVersion
      | Some ((a, b, c, d), r) \<Rightarrow>
          Inr \<lparr>ver_maj = nat_of_digits a, ver_min = nat_of_digits b,
               ver_sp = nat_of_digits c, ver_patch = nat_of_digits d\<rparr>)"

definition VersionInfo_VersionString :: "version_info \<Rightarrow> string" where
  "VersionInfo_VersionString v =
     digits_of_nat (ver_maj v) @ ''.'' @ digits_of_nat (ver_min v) @ ''.'' @
     digits_of_nat (ver_sp v) @ ''.'' @ digits_of_nat (ver_patch v)"

section \<open>_LKGMCandidateInfo\<close>

text \<open>
  The attribute \<^verbatim>\<open>ver_revision\<close> holds \<^verbatim>\<open>None\<close>, then group 2 of the match (a
  \<^verbatim>\<open>str\<close>) or the integer 1.
\<close>

datatype revision = RevNone | RevText string | RevInt int

fun rev_truthy :: "revision \<Rightarrow> bool" where
  "rev_truthy RevNone = False"
| "rev_truthy (RevText s) = (s \<noteq> [])"
| "rev_truthy (RevInt n) = (n \<noteq> 0)"

fun rev_str :: "revision \<Rightarrow> string" where
  "rev_str RevNone = ''None''"
| "rev_str (RevText s) = s"
| "rev_str (RevInt n) = str_int n"

text \<open>
  \<^verbatim>\<open>int(x)\<close> on a revision. The texts that occur are runs of digits (group 2 of the
  pattern); any other text is reported as \<open>ValueError\<close>.
\<close>

fun rev_int :: "revision \<Rightarrow> py_error + int" where
  "rev_int RevNone = Inl TypeError"
| "rev_int (RevText s) =
     (if s \<noteq> [] \<and> list_all is_digit s then Inr (int (nat_of_digits s)) else Inl ValueError)"
| "rev_int (RevInt n) = Inr n"

text \<open>
  The object: the four inherited components, \<^verbatim>\<open>ver_revision\<close>, and the attribute
  \<^verbatim>\<open>version_revision\<close> that \<^verbatim>\<open>IncrementVersion\<close> reads and writes. No code of the
  class ever sets \<^verbatim>\<open>version_revision\<close>; \<open>None\<close> is the attribute being absent.
\<close>

record lkgm_info = version_info +
  ver_revision :: revision
  version_revision :: "int option"

definition lkgm_of :: "version_info \<Rightarrow> revision \<Rightarrow> lkgm_info" where
  "lkgm_of v r =
     \<lparr>ver_maj = ver_maj v, ver_min = ver_min v, ver_sp = ver_sp v, ver_patch = ver_patch v,
      ver_revision = (if rev_truthy r then r else RevInt 1), version_revision = None\<rparr>"

text \<open>
  \<^verbatim>\<open>__init__(self, version_string=None, version_file=None)\<close>. \<open>load\<close> is the absent
  base class reading a version file. \<^verbatim>\<open>re.search\<close> on anything but a string raises
  \<open>TypeError\<close>; the \<^verbatim>\<open>assert\<close> raises \<open>AssertionError\<close>. \<open>lkgm_of\<close> is the last
  statement, \<^verbatim>\<open>if not self.ver_revision: self.ver_revision = 1\<close>.
\<close>

definition LKGMCandidateInfo_init ::
  "(py_value \<Rightarrow> py_error + version_info) \<Rightarrow> py_value \<Rightarrow> py_value \<Rightarrow> py_error + lkgm_info" where
  "LKGMCandidateInfo_init load version_string version_file =
     (if truthy version_string then
        (case version_string of
           PyStr s \<Rightarrow>
             (case re_search match_LKGM s of
                None \<Rightarrow> Inl AssertionError
              | Some (g1, g2) \<Rightarrow>
                  (case VersionInfo_Parse (version_text g1) of
                     Inl e \<Rightarrow> Inl e
                   | Inr v \<Rightarrow>
                       Inr (lkgm_of v (case g2 of None \<Rightarrow> RevNone | Some d \<Rightarrow> RevText d))))
         | _ \<Rightarrow> Inl TypeError)
      else
        (case load version_file of
           Inl e \<Rightarrow> Inl e
         | Inr v \<Rightarrow> Inr (lkgm_of v RevNone)))"

definition VersionString :: "lkgm_info \<Rightarrow> string" where
  "VersionString c =
     digits_of_nat (ver_maj c) @ ''.'' @ digits_of_nat (ver_min c) @ ''.'' @
     digits_of_nat (ver_sp c) @ ''.'' @ digits_of_nat (ver_patch c) @
     ''-rc'' @ rev_str (ver_revision c)"

text \<open>
  \<^verbatim>\<open>VersionCompare(cls, version_string)\<close> builds \<^verbatim>\<open>cls(version_string)\<close> and
  returns \<^verbatim>\<open>map(int, [...])\<close> over its five attributes; \<open>compare_key\<close> is that
  second step. Python compares the resulting lists lexicographically, which is the
  order of \<open>int list\<close> here.
\<close>

definition compare_key :: "lkgm_info \<Rightarrow> py_error + int list" where
  "compare_key lkgm =
     (case rev_int (ver_revision lkgm) of
        Inl e \<Rightarrow> Inl e
      | Inr r \<Rightarrow>
          Inr [int (ver_maj lkgm), int (ver_min lkgm), int (ver_sp lkgm),
               int (ver_patch lkgm), r])"

definition VersionCompare ::
  "(py_value \<Rightarrow> py_error + version_info) \<Rightarrow> string \<Rightarrow> py_error + int list" where
  "VersionCompare load version_string =
     (case LKGMCandidateInfo_init load (PyStr version_string) PyNone of
        Inl e \<Rightarrow> Inl e
      | Inr lkgm \<Rightarrow> compare_key lkgm)"

text \<open>
  \<^verbatim>\<open>IncrementVersion(self, message, dry_run)\<close>: \<^verbatim>\<open>self.version_revision += 1\<close> reads
  the attribute \<^verbatim>\<open>version_revision\<close> (an \<open>AttributeError\<close> when the object has none),
  stores it incremented, and returns \<^verbatim>\<open>self.VersionString()\<close>. The result is the
  returned text with the receiver as the call leaves it.
\<close>

definition IncrementVersion :: "lkgm_info \<Rightarrow> string \<Rightarrow> bool \<Rightarrow> py_error + (string \<times> lkgm_info)" where
  "IncrementVersion self message dry_run =
     (case version_revision self of
        None \<Rightarrow> Inl AttributeError
      | Some n \<Rightarrow>
          (let self' = self\<lparr>version_revision := Some (n + 1)\<rparr>
           in Inr (VersionString self', self')))"

section \<open>Library operations used by the manager\<close>

text \<open>\<^verbatim>\<open>os.path.join(a, *p)\<close> of \<^verbatim>\<open>posixpath\<close>: an absolute component discards what came before.\<close>

fun os_path_join :: "string \<Rightarrow> string list \<Rightarrow> string" where
  "os_path_join path [] = path"
| "os_path_join path (b # p) =
     os_path_join
       (if take 1 b = ''/'' then b
        else if path = [] \<or> last path = CHR ''/'' then path @ b
        else path @ ''/'' @ b) p"

text \<open>
  \<^verbatim>\<open>format % mapping\<close> on strings, read left to right as CPython does.
  A conversion without a key takes the next argument, and there is one: the mapping
  itself, until a conversion has used an argument. After \<^verbatim>\<open>%\<close>:
  \<^item> a second \<^verbatim>\<open>%\<close> is a literal;
  \<^item> \<^verbatim>\<open>(\<close> opens a key that runs to the matching \<^verbatim>\<open>)\<close> (nested parentheses are
    counted) and is looked up at once (\<open>KeyError\<close>); the conversion \<^verbatim>\<open>s\<close> after the
    key inserts the value, and a character that is no part of any conversion raises
    \<open>ValueError\<close> (unsupported format character);
  \<^item> without a key, when an earlier conversion has used the argument, a conversion
    character or a character that is no part of any conversion raises \<open>TypeError\<close>
    (not enough arguments for format string);
  \<^item> without a key and with the argument unused, a character that is no part of any
    conversion raises \<open>ValueError\<close> (unsupported format character);
  \<^item> a format that ends inside a conversion raises \<open>ValueError\<close>.
  Flags, widths, precisions, length modifiers and the conversions other than
  \<^verbatim>\<open>%(key)s\<close> are outside this model and are reported as \<open>OtherError\<close>.
  The mode is where the reader stands: in literal text or just after \<^verbatim>\<open>%\<close> (each
  with the flag "an argument has been used"), inside a key, or after a key with its
  value.
\<close>

definition flag_chars :: "string" where
  "flag_chars = ''-+ #0123456789*.hlL''"

definition conversion_chars :: "string" where
  "conversion_chars = ''srdiuoxXeEfFgGc''"

datatype fmt_mode = Lit bool | Pct bool | Key nat string | Conv string

fun py_format_run :: "fmt_mode \<Rightarrow> (string \<rightharpoonup> string) \<Rightarrow> string \<Rightarrow> py_error + string" where
  "py_format_run (Lit used) d [] = Inr []"
| "py_format_run (Pct used) d [] = Inl ValueError"
| "py_format_run (Key n k) d [] = Inl ValueError"
| "py_format_run (Conv v) d [] = Inl ValueError"
| "py_format_run (Lit used) d (c # cs) =
     (if c = CHR ''%'' then py_format_run (Pct used) d cs
      else (case py_format_run (Lit used) d cs of Inl e \<Rightarrow> Inl e | Inr t \<Rightarrow> Inr (c # t)))"
| "py_format_run (Pct used) d (c # cs) =
     (if c = CHR ''%'' then
        (case py_format_run (Lit used) d cs of Inl e \<Rightarrow> Inl e | Inr t \<Rightarrow> Inr (c # t))
      else if c = CHR ''('' then py_format_run (Key 0 []) d cs
      else if c \<in> set flag_chars then Inl (OtherError ''conversion outside the model'')
      else if used then Inl TypeError
      else if c \<in> set conversion_chars then Inl (OtherError ''conversion outside the model'')
      else Inl ValueError)"
| "py_format_run (Key n k) d (c # cs) =
     (if c = CHR '')'' then
        (if n = 0 then
           (case d k of None \<Rightarrow> Inl KeyError | Some v \<Rightarrow> py_format_run (Conv v) d cs)
         else py_format_run (Key (n - 1) (k @ [c])) d cs)
      else if c = CHR ''('' then py_format_run (Key (Suc n) (k @ [c])) d cs
      else py_format_run (Key n (k @ [c])) d cs)"
| "py_format_run (Conv v) d (c # cs) =
     (if c = CHR ''s'' then
        (case py_format_run (Lit True) d cs of Inl e \<Rightarrow> Inl e | Inr t \<Rightarrow> Inr (v @ t))
      else if c = CHR ''%'' \<or> c \<in> set flag_chars \<or> c \<in> set conversion_chars then
        Inl (OtherError ''conversion outside the model'')
      else Inl ValueError)"

definition py_format :: "string \<Rightarrow> (string \<rightharpoonup> string) \<Rightarrow> py_error + string" where
  "py_format fmt d = py_format_run (Lit False) d fmt"

text \<open>
  \<^verbatim>\<open>sorted(xs, key=f)\<close>: the keys are computed first, one call per element from left
  to right, and the sort is stable, as \<open>sort_key\<close> is.
\<close>

fun map_result :: "('a \<Rightarrow> 'e + 'b) \<Rightarrow> 'a list \<Rightarrow> 'e + 'b list" where
  "map_result f [] = Inr []"
| "map_result f (x # xs) =
     (case f x of
        Inl e \<Rightarrow> Inl e
      | Inr y \<Rightarrow> (case map_result f xs of Inl e \<Rightarrow> Inl e | Inr ys \<Rightarrow> Inr (y # ys)))"

definition py_sorted :: "('a \<Rightarrow> 'e + 'k::linorder) \<Rightarrow> 'a list \<Rightarrow> 'e + 'a list" where
  "py_sorted key xs =
     (case map_result key xs of
        Inl e \<Rightarrow> Inl e
      | Inr ks \<Rightarrow> Inr (map snd (sort_key fst (zip ks xs))))"

section \<open>LKGMManager\<close>

text \<open>
  The attributes of the manager that this module reads or writes. The constructor of
  the base class \<^verbatim>\<open>manifest_version.BuildSpecsManager\<close> is not among the sources, so
  the attributes are taken as given; \<^verbatim>\<open>manifest_dir\<close> (read when the marker paths are
  built) and \<^verbatim>\<open>manifests_dir\<close> (the directory that is synced) are two attributes.
  \<open>all\<close> is \<^verbatim>\<open>self.all\<close>.
\<close>

record manager =
  build_name :: string
  manifest_dir :: string
  manifests_dir :: string
  all :: "string list"
  latest_unprocessed :: py_value
  current_version :: py_value

text \<open>What a call leaves behind: calls of collaborators, log lines, syncs and sleeps.\<close>

datatype event =
    Called string
  | Logged string string
  | Synced string
  | Slept nat

text \<open>
  \<^verbatim>\<open>_GetLatestLKGMCandidate\<close> returns either what \<^verbatim>\<open>sorted\<close> returns, a list of
  strings, or an \<^verbatim>\<open>_LKGMCandidateInfo\<close>.
\<close>

datatype lkgm_ret = RetList "string list" | RetInfo lkgm_info

text \<open>
  The methods inherited from \<^verbatim>\<open>BuildSpecsManager\<close> and the file reader of
  \<^verbatim>\<open>VersionInfo\<close>, none of them among the sources: parameters of the model. Each
  either raises or returns; \<open>LoadSpecs\<close> and \<open>SetInFlight\<close> return the manager with
  the attributes they set.
\<close>

record base_ops =
  VersionInfo_load :: "py_value \<Rightarrow> py_error + version_info"
  GetCurrentVersionInfo :: "manager \<Rightarrow> py_value \<Rightarrow> py_error + version_info"
  LoadSpecs :: "manager \<Rightarrow> version_info \<Rightarrow> string \<Rightarrow> py_error + manager"
  CreateNewBuildSpec :: "manager \<Rightarrow> lkgm_ret \<Rightarrow> py_error + py_value \<times> manager"
  SetInFlight :: "manager \<Rightarrow> string \<Rightarrow> py_error + manager"

text \<open>
  \<^verbatim>\<open>_GetLatestLKGMCandidate(self, version_info)\<close>. The filter keeps the entries of
  \<^verbatim>\<open>self.all\<close> equal to \<^verbatim>\<open>version_info.VersionString()\<close>; the sorted list itself is
  returned; the fall-back passes the bound method \<^verbatim>\<open>version_info.VersionString\<close> to
  the constructor.
\<close>

definition GetLatestLKGMCandidate :: "base_ops \<Rightarrow> manager \<Rightarrow> version_info \<Rightarrow> py_error + lkgm_ret" where
  "GetLatestLKGMCandidate ops self version_info =
     (let fallback =
            (case LKGMCandidateInfo_init (VersionInfo_load ops) PyMethod PyNone of
               Inl e \<Rightarrow> Inl e
             | Inr info \<Rightarrow> Inr (RetInfo info))
      in if all self \<noteq> [] then
           (let matched_lkgms =
                  filter (\<lambda>ver. ver = VersionInfo_VersionString version_info) (all self)
            in if matched_lkgms \<noteq> [] then
                 (case py_sorted (VersionCompare (VersionInfo_load ops)) matched_lkgms of
                    Inl e \<Rightarrow> Inl e
                  | Inr sorted_lkgms \<Rightarrow> Inr (RetList sorted_lkgms))
               else fallback)
         else fallback)"

text \<open>
  The \<^verbatim>\<open>except (cros_lib.RunCommandError, manifest_version.GitCommandException)\<close>
  clause: the message of an exception that it catches. Every other exception
  passes through.
\<close>

fun caught :: "py_error \<Rightarrow> string option" where
  "caught (RunCommandError msg) = Some msg"
| "caught (GitCommandException msg) = Some msg"
| "caught e = None"

definition handle_failure ::
  "string \<Rightarrow> (py_error + py_value) \<times> manager \<times> event list \<Rightarrow>
   (py_error + py_value) \<times> manager \<times> event list" where
  "handle_failure prefix r =
     (case r of
        (Inr v, self, evs) \<Rightarrow> r
      | (Inl e, self, evs) \<Rightarrow>
          (case caught e of
             None \<Rightarrow> r
           | Some msg \<Rightarrow>
               (Inl (GenerateBuildSpecException (prefix @ msg)), self,
                evs @ [Logged ''error'' (prefix @ msg)])))"

text \<open>
  \<^verbatim>\<open>CreateNextLKGMCandidate(self, version_file, retries=0)\<close>, first the body of its
  \<^verbatim>\<open>try\<close>. The result is what the block returns or raises, the manager as it leaves
  it, and the events in order.
\<close>

definition CreateNextLKGMCandidate_try ::
  "base_ops \<Rightarrow> manager \<Rightarrow> py_value \<Rightarrow> (py_error + py_value) \<times> manager \<times> event list" where
  "CreateNextLKGMCandidate_try ops self version_file =
       (case GetCurrentVersionInfo ops self version_file of
          Inl e \<Rightarrow> (Inl e, self, [Called ''_GetCurrentVersionInfo''])
        | Inr version_info \<Rightarrow>
       (case LoadSpecs ops self version_info ''LKGM-candidates'' of
          Inl e \<Rightarrow> (Inl e, self, [Called ''_GetCurrentVersionInfo'', Called ''_LoadSpecs''])
        | Inr self1 \<Rightarrow>
       (case GetLatestLKGMCandidate ops self1 version_info of
          Inl e \<Rightarrow> (Inl e, self1, [Called ''_GetCurrentVersionInfo'', Called ''_LoadSpecs''])
        | Inr lkgm_info \<Rightarrow>
       (case CreateNewBuildSpec ops self1 lkgm_info of
          Inl e \<Rightarrow>
            (Inl e, self1,
             [Called ''_GetCurrentVersionInfo'', Called ''_LoadSpecs'', Called ''_CreateNewBuildSpec''])
        | Inr (version, self2) \<Rightarrow>
            (let self3 = self2\<lparr>current_version := version\<rparr>;
                 evs = [Called ''_GetCurrentVersionInfo'', Called ''_LoadSpecs'',
                        Called ''_CreateNewBuildSpec'']
             in if truthy (current_version self3) then
                  (let commit_message =
                         ''Automatic: Start '' @ build_name self3 @ '' '' @ py_str (current_version self3);
                       evs1 = evs @ [Logged ''debug'' (''Using build spec: '' @ py_str (current_version self3)),
                                     Called ''_SetInFlight'']
                   in case SetInFlight ops self3 commit_message of
                        Inl e \<Rightarrow> (Inl e, self3, evs1)
                      | Inr self4 \<Rightarrow> (Inr (current_version self4), self4, evs1))
                else (Inr (current_version self3), self3, evs))))))"

text \<open>
  The method: the block under its \<^verbatim>\<open>except\<close> clause. \<open>retries\<close> is the parameter of
  that name; the body never reads it.
\<close>

definition CreateNextLKGMCandidate ::
  "base_ops \<Rightarrow> manager \<Rightarrow> py_value \<Rightarrow> nat \<Rightarrow> (py_error + py_value) \<times> manager \<times> event list" where
  "CreateNextLKGMCandidate ops self version_file retries =
     handle_failure ''Failed to generate LKGM Candidate. error: ''
       (CreateNextLKGMCandidate_try ops self version_file)"

text \<open>\<^verbatim>\<open>GetNextLKGMCandidate(self, version_file, retries=0)\<close>, in the same terms.\<close>

definition GetNextLKGMCandidate_try ::
  "base_ops \<Rightarrow> manager \<Rightarrow> py_value \<Rightarrow> (py_error + py_value) \<times> manager \<times> event list" where
  "GetNextLKGMCandidate_try ops self version_file =
       (case GetCurrentVersionInfo ops self version_file of
          Inl e \<Rightarrow> (Inl e, self, [Called ''_GetCurrentVersionInfo''])
        | Inr version_info \<Rightarrow>
       (case LoadSpecs ops self version_info ''LKGM-candidates'' of
          Inl e \<Rightarrow> (Inl e, self, [Called ''_GetCurrentVersionInfo'', Called ''_LoadSpecs''])
        | Inr self1 \<Rightarrow>
            (let self3 = self1\<lparr>current_version := latest_unprocessed self1\<rparr>;
                 evs = [Called ''_GetCurrentVersionInfo'', Called ''_LoadSpecs'']
             in if truthy (current_version self3) then
                  (let commit_message =
                         ''Automatic: Start '' @ build_name self3 @ '' '' @ py_str (current_version self3);
                       evs1 = evs @ [Logged ''debug'' (''Using build spec: '' @ py_str (current_version self3)),
                                     Called ''_SetInFlight'']
                   in case SetInFlight ops self3 commit_message of
                        Inl e \<Rightarrow> (Inl e, self3, evs1)
                      | Inr self4 \<Rightarrow> (Inr (current_version self4), self4, evs1))
                else (Inr (current_version self3), self3, evs))))"

definition GetNextLKGMCandidate ::
  "base_ops \<Rightarrow> manager \<Rightarrow> py_value \<Rightarrow> nat \<Rightarrow> (py_error + py_value) \<times> manager \<times> event list" where
  "GetNextLKGMCandidate ops self version_file retries =
     handle_failure ''Failed to get next LKGM Candidate. error: ''
       (GetNextLKGMCandidate_try ops self version_file)"

section \<open>GetOthersStatuses\<close>

definition MAX_TIMEOUT_SECONDS :: nat where
  "MAX_TIMEOUT_SECONDS = 300"

definition SLEEP_TIMEOUT :: nat where
  "SLEEP_TIMEOUT = 30"

text \<open>
  The world the polling loop runs in. The clock counts seconds; \<^verbatim>\<open>time.time()\<close>
  reads it. A call of \<^verbatim>\<open>_SyncGitRepo\<close> that starts at time \<open>t\<close> raises
  \<open>sync_error t\<close> when that is an error and takes \<open>sync_cost\<close> seconds otherwise;
  \<^verbatim>\<open>time.sleep(n)\<close> takes \<open>n\<close> seconds; \<open>lexists t p\<close> is what
  \<^verbatim>\<open>os.path.lexists(p)\<close> answers at time \<open>t\<close>.
\<close>

record env =
  sync_cost :: nat
  sync_error :: "nat \<Rightarrow> py_error option"
  lexists :: "nat \<Rightarrow> string \<Rightarrow> bool"

text \<open>The values stored in \<^verbatim>\<open>other_statuses\<close>: the three words and \<^verbatim>\<open>None\<close>.\<close>

datatype py_status = StatusPass | StatusFail | StatusInflight | StatusNone

record poll_state =
  clock :: nat
  other_statuses :: "string \<rightharpoonup> py_status"
  num_complete :: nat
  events :: "event list"

definition SyncGitRepo :: "env \<Rightarrow> string \<Rightarrow> poll_state \<Rightarrow> py_error + poll_state" where
  "SyncGitRepo e local_dir st =
     (case sync_error e (clock st) of
        Some err \<Rightarrow> Inl err
      | None \<Rightarrow>
          Inr (st\<lparr>clock := clock st + sync_cost e, events := events st @ [Synced local_dir]\<rparr>))"

text \<open>\<^verbatim>\<open>self.current_version + '.xml'\<close> and \<^verbatim>\<open>self.current_version.DirPrefix()\<close>.\<close>

fun py_add_str :: "py_value \<Rightarrow> string \<Rightarrow> py_error + string" where
  "py_add_str (PyStr s) t = Inr (s @ t)"
| "py_add_str (PyVersion s p) t = Inr (s @ t)"
| "py_add_str v t = Inl TypeError"

fun DirPrefix :: "py_value \<Rightarrow> py_error + string" where
  "DirPrefix (PyVersion s p) = Inr p"
| "DirPrefix v = Inl AttributeError"

text \<open>
  The chain of marker checks of the loop body: the status that the three answers of
  \<^verbatim>\<open>os.path.lexists\<close> give.
\<close>

definition marker_status :: "bool \<Rightarrow> bool \<Rightarrow> bool \<Rightarrow> py_status" where
  "marker_status has_pass has_fail has_inflight =
     (if has_pass then StatusPass
      else if has_fail then StatusFail
      else if has_inflight then StatusInflight
      else StatusNone)"

text \<open>
  The body of \<^verbatim>\<open>for other in others\<close>: a peer already \<^verbatim>\<open>pass\<close> or \<^verbatim>\<open>fail\<close> is
  skipped; otherwise the three templates are formatted with
  \<^verbatim>\<open>{'build-name': other}\<close>, the markers are checked in order, and a \<^verbatim>\<open>pass\<close> or a
  \<^verbatim>\<open>fail\<close> counts as complete.
\<close>

definition poll_other ::
  "env \<Rightarrow> string \<Rightarrow> string \<Rightarrow> string \<Rightarrow> poll_state \<Rightarrow> string \<Rightarrow> py_error + poll_state" where
  "poll_other e pass_file fail_file inflight_file st other =
     (if other_statuses st other = Some StatusPass \<or> other_statuses st other = Some StatusFail
      then Inr st
      else
        (case py_format pass_file [''build-name'' \<mapsto> other] of
           Inl err \<Rightarrow> Inl err
         | Inr other_pass \<Rightarrow>
        (case py_format fail_file [''build-name'' \<mapsto> other] of
           Inl err \<Rightarrow> Inl err
         | Inr other_fail \<Rightarrow>
        (case py_format inflight_file [''build-name'' \<mapsto> other] of
           Inl err \<Rightarrow> Inl err
         | Inr other_inflight \<Rightarrow>
             (let status = marker_status (lexists e (clock st) other_pass)
                             (lexists e (clock st) other_fail)
                             (lexists e (clock st) other_inflight)
              in Inr (st\<lparr>other_statuses := (other_statuses st)(other \<mapsto> status),
                         num_complete :=
                           (if status = StatusPass \<or> status = StatusFail
                            then num_complete st + 1 else num_complete st)\<rparr>))))))"

fun poll_others ::
  "env \<Rightarrow> string \<Rightarrow> string \<Rightarrow> string \<Rightarrow> poll_state \<Rightarrow> string list \<Rightarrow> py_error + poll_state" where
  "poll_others e pass_file fail_file inflight_file st [] = Inr st"
| "poll_others e pass_file fail_file inflight_file st (other # others) =
     (case poll_other e pass_file fail_file inflight_file st other of
        Inl err \<Rightarrow> Inl err
      | Inr st' \<Rightarrow> poll_others e pass_file fail_file inflight_file st' others)"

text \<open>One pass through the body of the \<^verbatim>\<open>while\<close> loop: sync, poll, and sleep if not complete.\<close>

definition poll_round ::
  "env \<Rightarrow> manager \<Rightarrow> string \<Rightarrow> string \<Rightarrow> string \<Rightarrow> string list \<Rightarrow> poll_state \<Rightarrow> py_error + poll_state" where
  "poll_round e self pass_file fail_file inflight_file others st =
     (case SyncGitRepo e (manifests_dir self) st of
        Inl err \<Rightarrow> Inl err
      | Inr st1 \<Rightarrow>
     (case poll_others e pass_file fail_file inflight_file st1 others of
        Inl err \<Rightarrow> Inl err
      | Inr st2 \<Rightarrow>
          Inr (if num_complete st2 < length others then
                 st2\<lparr>clock := clock st2 + SLEEP_TIMEOUT,
                     events := events st2 @
                       [Logged ''info'' ''Waiting for other builds to complete'',
                        Slept SLEEP_TIMEOUT]\<rparr>
               else st2)))"

text \<open>
  The \<^verbatim>\<open>while (time.time() - start_time) < self.MAX_TIMEOUT_SECONDS\<close> loop. In a world
  where neither a sync nor a sleep takes time the loop does not end: the value is
  \<open>None\<close>.
\<close>

partial_function (option) poll_loop ::
  "env \<Rightarrow> manager \<Rightarrow> string \<Rightarrow> string \<Rightarrow> string \<Rightarrow> string list \<Rightarrow> nat \<Rightarrow> poll_state
   \<Rightarrow> (py_error + poll_state) option" where
  "poll_loop e self pass_file fail_file inflight_file others start_time st =
     (if clock st - start_time < MAX_TIMEOUT_SECONDS then
        (case poll_round e self pass_file fail_file inflight_file others st of
           Inl err \<Rightarrow> Some (Inl err)
         | Inr st' \<Rightarrow> poll_loop e self pass_file fail_file inflight_file others start_time st')
      else Some (Inr st))"

declare poll_loop.simps [code]

text \<open>
  \<^verbatim>\<open>GetOthersStatuses(self, others)\<close>, called when the clock reads \<open>now\<close>. The
  dictionary that the call returns is \<open>other_statuses\<close> of the resulting state; the
  state also holds the clock at the return and the events of the call.
\<close>

definition GetOthersStatuses ::
  "env \<Rightarrow> manager \<Rightarrow> string list \<Rightarrow> nat \<Rightarrow> (py_error + poll_state) option" where
  "GetOthersStatuses e self others now =
     (case py_add_str (current_version self) ''.xml'' of
        Inl err \<Rightarrow> Some (Inl err)
      | Inr xml_name \<Rightarrow>
     (case DirPrefix (current_version self) of
        Inl err \<Rightarrow> Some (Inl err)
      | Inr dir_pfx \<Rightarrow>
          (let specs_for_build =
                 os_path_join (manifest_dir self)
                   [''LKGM-candidates'', ''build-name'', ''%{build_name}s''];
               pass_file = os_path_join specs_for_build [''pass'', dir_pfx, xml_name];
               fail_file = os_path_join specs_for_build [''fail'', dir_pfx, xml_name];
               inflight_file = os_path_join specs_for_build [''inflight'', dir_pfx, xml_name];
               start_time = now;
               st0 = \<lparr>clock = now, other_statuses = Map.empty, num_complete = 0, events = []\<rparr>
           in (case poll_loop e self pass_file fail_file inflight_file others start_time st0 of
                 None \<Rightarrow> None
               | Some (Inl err) \<Rightarrow> Some (Inl err)
               | Some (Inr st) \<Rightarrow>
                   Some (Inr (if num_complete st \<noteq> length others then
                                st\<lparr>events := events st @
                                    [Logged ''error''
                                       ''Not all builds finished before MAX_TIMEOUT reached.'']\<rparr>
                              else st))))))"

section \<open>Predicates used in the statements\<close>

text \<open>A non-empty run of decimal digits, which is what \<^verbatim>\<open>\d+\<close> matches.\<close>

definition digit_run :: "string \<Rightarrow> bool" where
  "digit_run d = (d \<noteq> [] \<and> list_all is_digit d)"

text \<open>A text that does not go on with a digit.\<close>

definition no_digit_ahead :: "string \<Rightarrow> bool" where
  "no_digit_ahead r = (case r of [] \<Rightarrow> True | c # cs \<Rightarrow> \<not> is_digit c)"

text \<open>
  A text that begins with the version pattern, said of the text alone: four runs of
  digits with dots between them, and then anything.
\<close>

definition begins_with_version :: "string \<Rightarrow> bool" where
  "begins_with_version t =
     (\<exists>a b c d r. digit_run a \<and> digit_run b \<and> digit_run c \<and> digit_run d \<and>
        t = version_text (a, b, c, d) @ r)"

text \<open>
  The revisions of candidates: the digits of a suffix, or a non-negative integer (the
  constructor stores 1).
\<close>

definition wf_revision :: "revision \<Rightarrow> bool" where
  "wf_revision r = (case r of RevNone \<Rightarrow> False | RevText s \<Rightarrow> digit_run s | RevInt n \<Rightarrow> 0 \<le> n)"

text \<open>
  What the \<^verbatim>\<open>except\<close> clause of the two entry points makes of an exception of the
  \<^verbatim>\<open>try\<close> block: a \<open>GenerateBuildSpecException\<close> with the prefixed message when it
  catches it, the exception itself otherwise.
\<close>

definition raised_as :: "string \<Rightarrow> py_error \<Rightarrow> py_error" where
  "raised_as prefix e =
     (case caught e of None \<Rightarrow> e | Some msg \<Rightarrow> GenerateBuildSpecException (prefix @ msg))"

text \<open>The collaborators called, in order.\<close>

fun call_names :: "event list \<Rightarrow> string list" where
  "call_names [] = []"
| "call_names (Called name # evs) = name # call_names evs"
| "call_names (ev # evs) = call_names evs"

text \<open>
  The marker path of the spec, in its words:
  \<^verbatim>\<open><manifest-root>/LKGM-candidates/build-name/<builder-name>/{pass|fail|inflight}/<version-dir-prefix>/<candidate>.xml\<close>.
\<close>

definition spec_marker_path :: "string \<Rightarrow> string \<Rightarrow> string \<Rightarrow> string \<Rightarrow> string \<Rightarrow> string" where
  "spec_marker_path root builder status dir_pfx candidate =
     root @ ''/LKGM-candidates/build-name/'' @ builder @ ''/'' @ status @ ''/'' @ dir_pfx @ ''/'' @
     candidate @ ''.xml''"

text \<open>
  What a caller sees of a call of \<^verbatim>\<open>GetOthersStatuses\<close>: the exception, or the entries
  of the returned dictionary for the given peers, the clock at the return and the
  events.
\<close>

definition outcome ::
  "string list \<Rightarrow> (py_error + poll_state) option \<Rightarrow>
   (py_error + py_status option list \<times> nat \<times> event list) option" where
  "outcome peers r =
     map_option (map_sum id (\<lambda>st. (map (other_statuses st) peers, clock st, events st))) r"

section \<open>Scenarios\<close>

text \<open>
  A manager whose manifest directory is \<^verbatim>\<open>/manifests\<close>, with a given list of published
  candidates and a given current version.
\<close>

definition manager_at :: "string list \<Rightarrow> py_value \<Rightarrow> manager" where
  "manager_at candidates version =
     \<lparr>build_name = ''master'', manifest_dir = ''/manifests'', manifests_dir = ''/manifests'',
      all = candidates, latest_unprocessed = PyNone, current_version = version\<rparr>"

text \<open>
  A world where the markers of a given list exist at all times, a sync takes 100
  seconds and never fails.
\<close>

definition world_with :: "string list \<Rightarrow> env" where
  "world_with markers =
     \<lparr>sync_cost = 100, sync_error = (\<lambda>t. None), lexists = (\<lambda>t p. p \<in> set markers)\<rparr>"

text \<open>
  Collaborators that work: the version file reads as 1.2.0.0, loading the specs finds
  the given candidates, a new build spec gets the given version, and the claim
  succeeds. \<open>failing_ops\<close> are collaborators whose first step raises the given
  exception.
\<close>

definition working_ops :: "string list \<Rightarrow> py_value \<Rightarrow> base_ops" where
  "working_ops candidates version =
     \<lparr>VersionInfo_load = (\<lambda>f. Inl (OtherError ''no version file'')),
      GetCurrentVersionInfo =
        (\<lambda>self f. Inr \<lparr>ver_maj = 1, ver_min = 2, ver_sp = 0, ver_patch = 0\<rparr>),
      LoadSpecs = (\<lambda>self v dir. Inr (self\<lparr>all := candidates\<rparr>)),
      CreateNewBuildSpec = (\<lambda>self r. Inr (version, self)),
      SetInFlight = (\<lambda>self message. Inr self)\<rparr>"

definition failing_ops :: "py_error \<Rightarrow> base_ops" where
  "failing_ops e = (working_ops [] PyNone)\<lparr>GetCurrentVersionInfo := (\<lambda>self f. Inl e)\<rparr>"

section \<open>Digits and the pattern\<close>

lemma is_digit_digit_char: "d < 10 \<Longrightarrow> is_digit (digit_char d)"
  by (simp add: is_digit_def digit_char_def)

lemma digit_val_digit_char: "d < 10 \<Longrightarrow> digit_val (digit_char d) = d"
  by (simp add: digit_val_def digit_char_def)

lemma digits_of_nat_nonempty: "digits_of_nat n \<noteq> []"
  by (subst digits_of_nat.simps) simp

lemma digits_of_nat_digits: "list_all is_digit (digits_of_nat n)"
proof (induction n rule: digits_of_nat.induct)
  case (1 n)
  show ?case
  proof (cases "n < 10")
    case True
    then show ?thesis
      by (subst digits_of_nat.simps) (simp add: is_digit_digit_char)
  next
    case False
    then have "list_all is_digit (digits_of_nat (n div 10))"
      using "1.IH" by simp
    moreover have "is_digit (digit_char (n mod 10))"
      by (simp add: is_digit_digit_char)
    ultimately show ?thesis
      using False by (subst digits_of_nat.simps) simp
  qed
qed

lemma digit_run_digits_of_nat [simp]: "digit_run (digits_of_nat n)"
  by (simp add: digit_run_def digits_of_nat_nonempty digits_of_nat_digits)

lemma nat_of_digits_snoc: "nat_of_digits (s @ [c]) = 10 * nat_of_digits s + digit_val c"
  by (simp add: nat_of_digits_def)

lemma nat_of_digits_of_nat: "nat_of_digits (digits_of_nat n) = n"
proof (induction n rule: digits_of_nat.induct)
  case (1 n)
  show ?case
  proof (cases "n < 10")
    case True
    then show ?thesis
      by (subst digits_of_nat.simps) (simp add: nat_of_digits_def digit_val_digit_char)
  next
    case False
    then have "nat_of_digits (digits_of_nat (n div 10)) = n div 10"
      using "1.IH" by simp
    then show ?thesis
      using False
      by (subst digits_of_nat.simps) (simp add: nat_of_digits_snoc digit_val_digit_char)
  qed
qed

lemma takeWhile_digits:
  "list_all is_digit d \<Longrightarrow> no_digit_ahead r \<Longrightarrow> takeWhile is_digit (d @ r) = d"
  by (induction d) (auto simp: no_digit_ahead_def split: list.splits)

lemma dropWhile_digits:
  "list_all is_digit d \<Longrightarrow> no_digit_ahead r \<Longrightarrow> dropWhile is_digit (d @ r) = r"
  by (induction d) (auto simp: no_digit_ahead_def split: list.splits)

lemma match_num_run:
  "digit_run d \<Longrightarrow> no_digit_ahead r \<Longrightarrow> match_num (d @ r) = Some (d, r)"
  by (simp add: match_num_def digit_run_def takeWhile_digits dropWhile_digits)

lemma match_num_Some: "match_num s = Some (d, r) \<Longrightarrow> digit_run d"
proof -
  assume "match_num s = Some (d, r)"
  then have "d = takeWhile is_digit s" and "d \<noteq> []"
    by (auto simp: match_num_def Let_def split: if_splits)
  moreover have "list_all is_digit (takeWhile is_digit s)"
    by (induction s) simp_all
  ultimately show ?thesis
    by (simp add: digit_run_def)
qed

lemma no_digit_ahead_dot [simp]: "no_digit_ahead (CHR ''.'' # r)"
  by (simp add: no_digit_ahead_def is_digit_def)

lemma no_digit_ahead_dash [simp]: "no_digit_ahead (CHR ''-'' # r)"
  by (simp add: no_digit_ahead_def is_digit_def)

lemma no_digit_ahead_Nil [simp]: "no_digit_ahead []"
  by (simp add: no_digit_ahead_def)

lemma match_lit_dot [simp]: "match_lit ''.'' (CHR ''.'' # r) = Some r"
  by (simp add: match_lit_def)

lemma match_version_text:
  assumes "digit_run a" "digit_run b" "digit_run c" "digit_run d" "no_digit_ahead r"
  shows "match_version (version_text (a, b, c, d) @ r) = Some ((a, b, c, d), r)"
proof -
  have 1: "match_num (a @ CHR ''.'' # b @ CHR ''.'' # c @ CHR ''.'' # d @ r)
             = Some (a, CHR ''.'' # b @ CHR ''.'' # c @ CHR ''.'' # d @ r)"
    using assms(1) by (simp add: match_num_run)
  have 2: "match_num (b @ CHR ''.'' # c @ CHR ''.'' # d @ r) = Some (b, CHR ''.'' # c @ CHR ''.'' # d @ r)"
    using assms(2) by (simp add: match_num_run)
  have 3: "match_num (c @ CHR ''.'' # d @ r) = Some (c, CHR ''.'' # d @ r)"
    using assms(3) by (simp add: match_num_run)
  have 4: "match_num (d @ r) = Some (d, r)"
    using assms(4,5) by (simp add: match_num_run)
  show ?thesis
    by (simp add: match_version_def version_text_def 1 2 3 4)
qed

lemma match_version_Some:
  assumes "match_version s = Some ((a, b, c, d), r)"
  shows "digit_run a \<and> digit_run b \<and> digit_run c \<and> digit_run d"
  using assms unfolding match_version_def
  by (auto split: option.splits prod.splits dest: match_num_Some)

lemma match_LKGM_Some:
  assumes "match_LKGM s = Some ((a, b, c, d), g2)"
  shows "digit_run a \<and> digit_run b \<and> digit_run c \<and> digit_run d \<and>
         (case g2 of None \<Rightarrow> True | Some n \<Rightarrow> digit_run n)"
  using assms unfolding match_LKGM_def
  by (auto split: option.splits prod.splits dest: match_num_Some match_version_Some)

lemma match_LKGM_Nil [simp]: "match_LKGM [] = None"
  by (simp add: match_LKGM_def match_version_def match_num_def)

lemma re_search_here: "m s = Some x \<Longrightarrow> re_search m s = Some x"
  by (cases s) simp_all

lemma re_search_Some: "re_search m s = Some x \<Longrightarrow> \<exists>t. m t = Some x"
  by (induction s) (auto split: option.splits)

lemma VersionInfo_Parse_text:
  assumes "digit_run a" "digit_run b" "digit_run c" "digit_run d"
  shows "VersionInfo_Parse (version_text (a, b, c, d)) =
           Inr \<lparr>ver_maj = nat_of_digits a, ver_min = nat_of_digits b,
                ver_sp = nat_of_digits c, ver_patch = nat_of_digits d\<rparr>"
proof -
  have "match_version (version_text (a, b, c, d) @ []) = Some ((a, b, c, d), [])"
    using assms by (intro match_version_text) simp_all
  then have "re_search match_version (version_text (a, b, c, d)) = Some ((a, b, c, d), [])"
    by (simp add: re_search_here)
  then show ?thesis
    by (simp add: VersionInfo_Parse_def)
qed

lemma match_LKGM_suffix:
  assumes "digit_run a" "digit_run b" "digit_run c" "digit_run d" "digit_run n"
  shows "match_LKGM (version_text (a, b, c, d) @ ''-rc'' @ n) = Some ((a, b, c, d), Some n)"
proof -
  have "match_version (version_text (a, b, c, d) @ ''-rc'' @ n) = Some ((a, b, c, d), ''-rc'' @ n)"
    using assms by (intro match_version_text) simp_all
  moreover have "match_lit ''-rc'' (''-rc'' @ n) = Some n"
    by (simp add: match_lit_def)
  moreover have "match_num n = Some (n, [])"
    using match_num_run [of n "[]"] assms(5) by simp
  ultimately show ?thesis
    by (simp add: match_LKGM_def)
qed

lemma match_LKGM_bare:
  assumes "digit_run a" "digit_run b" "digit_run c" "digit_run d"
  shows "match_LKGM (version_text (a, b, c, d)) = Some ((a, b, c, d), None)"
proof -
  have "match_version (version_text (a, b, c, d) @ []) = Some ((a, b, c, d), [])"
    using assms by (intro match_version_text) simp_all
  then show ?thesis
    by (simp add: match_LKGM_def match_lit_def)
qed

lemma version_text_nonempty: "digit_run a \<Longrightarrow> version_text (a, b, c, d) @ r \<noteq> []"
  by (simp add: version_text_def digit_run_def)

section \<open>The constructor on canonical texts\<close>

lemma rev_str_run: "wf_revision r \<Longrightarrow> digit_run (rev_str r)"
  by (cases r) (simp_all add: wf_revision_def str_int_def)

lemma rev_int_rev_str: "wf_revision r \<Longrightarrow> rev_int (RevText (rev_str r)) = rev_int r"
  by (cases r)
     (auto simp: wf_revision_def str_int_def digit_run_def digits_of_nat_nonempty
        digits_of_nat_digits nat_of_digits_of_nat)

lemma init_canonical:
  assumes "digit_run n"
  shows "LKGMCandidateInfo_init load
           (PyStr (version_text (digits_of_nat a, digits_of_nat b, digits_of_nat c, digits_of_nat d)
                     @ ''-rc'' @ n)) vf =
         Inr \<lparr>ver_maj = a, ver_min = b, ver_sp = c, ver_patch = d,
              ver_revision = RevText n, version_revision = None\<rparr>"
proof -
  let ?v = "(digits_of_nat a, digits_of_nat b, digits_of_nat c, digits_of_nat d)"
  have m: "re_search match_LKGM (version_text ?v @ ''-rc'' @ n) = Some (?v, Some n)"
    using assms by (intro re_search_here match_LKGM_suffix) simp_all
  have p: "VersionInfo_Parse (version_text ?v) =
           Inr \<lparr>ver_maj = a, ver_min = b, ver_sp = c, ver_patch = d\<rparr>"
    by (simp add: VersionInfo_Parse_text nat_of_digits_of_nat)
  have t: "truthy (PyStr (version_text ?v @ ''-rc'' @ n))"
    using version_text_nonempty [of "digits_of_nat a"] by simp
  have r: "rev_truthy (RevText n)"
    using assms by (simp add: digit_run_def)
  show ?thesis
    unfolding LKGMCandidateInfo_init_def using t r
    by (simp add: m [simplified] p lkgm_of_def)
qed

lemma init_bare:
  "LKGMCandidateInfo_init load
     (PyStr (version_text (digits_of_nat a, digits_of_nat b, digits_of_nat c, digits_of_nat d))) vf =
   Inr \<lparr>ver_maj = a, ver_min = b, ver_sp = c, ver_patch = d,
        ver_revision = RevInt 1, version_revision = None\<rparr>"
proof -
  let ?v = "(digits_of_nat a, digits_of_nat b, digits_of_nat c, digits_of_nat d)"
  have m: "re_search match_LKGM (version_text ?v) = Some (?v, None)"
    by (intro re_search_here match_LKGM_bare) simp_all
  have p: "VersionInfo_Parse (version_text ?v) =
           Inr \<lparr>ver_maj = a, ver_min = b, ver_sp = c, ver_patch = d\<rparr>"
    by (simp add: VersionInfo_Parse_text nat_of_digits_of_nat)
  have t: "truthy (PyStr (version_text ?v))"
    using version_text_nonempty [of "digits_of_nat a" _ _ _ "[]"] by simp
  show ?thesis
    unfolding LKGMCandidateInfo_init_def using t by (simp add: m p lkgm_of_def)
qed

lemma VersionString_text:
  "VersionString c =
     version_text (digits_of_nat (ver_maj c), digits_of_nat (ver_min c),
       digits_of_nat (ver_sp c), digits_of_nat (ver_patch c)) @ ''-rc'' @ rev_str (ver_revision c)"
  by (simp add: VersionString_def version_text_def)

lemma VersionInfo_VersionString_text:
  "VersionInfo_VersionString v =
     version_text (digits_of_nat (ver_maj v), digits_of_nat (ver_min v),
       digits_of_nat (ver_sp v), digits_of_nat (ver_patch v))"
  by (simp add: VersionInfo_VersionString_def version_text_def)

lemma init_VersionString:
  assumes "wf_revision (ver_revision c)"
  shows "LKGMCandidateInfo_init load (PyStr (VersionString c)) vf =
         Inr \<lparr>ver_maj = ver_maj c, ver_min = ver_min c, ver_sp = ver_sp c, ver_patch = ver_patch c,
              ver_revision = RevText (rev_str (ver_revision c)), version_revision = None\<rparr>"
  unfolding VersionString_text using assms by (intro init_canonical rev_str_run)

lemma init_VersionInfo_VersionString:
  "LKGMCandidateInfo_init load (PyStr (VersionInfo_VersionString v)) vf =
     Inr \<lparr>ver_maj = ver_maj v, ver_min = ver_min v, ver_sp = ver_sp v, ver_patch = ver_patch v,
          ver_revision = RevInt 1, version_revision = None\<rparr>"
  unfolding VersionInfo_VersionString_text by (rule init_bare)

lemma compare_key_reparsed:
  assumes "wf_revision (ver_revision c)"
  shows "compare_key \<lparr>ver_maj = ver_maj c, ver_min = ver_min c, ver_sp = ver_sp c,
           ver_patch = ver_patch c, ver_revision = RevText (rev_str (ver_revision c)),
           version_revision = None\<rparr> = compare_key c"
  by (simp add: compare_key_def rev_int_rev_str [OF assms] del: rev_int.simps split: sum.splits)

lemma VersionCompare_VersionString:
  assumes "wf_revision (ver_revision c)"
  shows "VersionCompare load (VersionString c) = compare_key c"
  by (simp add: VersionCompare_def init_VersionString [OF assms] compare_key_reparsed [OF assms])

section \<open>Where the pattern is found in a text\<close>

lemma match_num_split: "match_num s = Some (d, r) \<Longrightarrow> s = d @ r"
  by (auto simp: match_num_def Let_def split: if_splits)

lemma match_lit_split: "match_lit p s = Some r \<Longrightarrow> s = p @ r"
  by (auto simp: match_lit_def split: if_splits) (metis append_take_drop_id)

lemma match_version_split:
  assumes "match_version s = Some ((a, b, c, d), r)"
  shows "s = version_text (a, b, c, d) @ r"
proof -
  from assms obtain r1 r2 r3 r4 r5 r6 where
    "match_num s = Some (a, r1)" "match_lit ''.'' r1 = Some r2"
    "match_num r2 = Some (b, r3)" "match_lit ''.'' r3 = Some r4"
    "match_num r4 = Some (c, r5)" "match_lit ''.'' r5 = Some r6"
    "match_num r6 = Some (d, r)"
    unfolding match_version_def by (auto split: option.splits prod.splits)
  then have "s = a @ r1" "r1 = ''.'' @ r2" "r2 = b @ r3" "r3 = ''.'' @ r4"
    "r4 = c @ r5" "r5 = ''.'' @ r6" "r6 = d @ r"
    by (auto dest: match_num_split match_lit_split)
  then show ?thesis
    by (simp add: version_text_def)
qed

lemma match_LKGM_begins:
  assumes "match_LKGM t = Some x"
  shows "begins_with_version t"
proof -
  from assms obtain v r where v: "match_version t = Some (v, r)"
    unfolding match_LKGM_def by (auto split: option.splits prod.splits)
  obtain a b c d where "v = (a, b, c, d)"
    by (cases v) auto
  with v show ?thesis
    unfolding begins_with_version_def
    using match_version_split match_version_Some by blast
qed

lemma list_all_upt: "list_all P [0..<n] = (\<forall>k<n. P k)"
  by (auto simp: list_all_iff)

lemma re_search_skip:
  assumes "list_all (\<lambda>k. m (drop k (pre @ t)) = None) [0..<length pre]"
  shows "re_search m (pre @ t) = re_search m t"
  using assms unfolding list_all_upt
proof (induction pre)
  case Nil
  then show ?case by simp
next
  case (Cons c pre)
  have "m (drop 0 ((c # pre) @ t)) = None"
    using Cons.prems by blast
  then have here: "m (c # pre @ t) = None"
    by simp
  have "m (drop k (pre @ t)) = None" if "k < length pre" for k
  proof -
    have "m (drop (Suc k) ((c # pre) @ t)) = None"
      using Cons.prems that by (metis Suc_less_eq length_Cons)
    then show ?thesis
      by simp
  qed
  then have "re_search m (pre @ t) = re_search m t"
    using Cons.IH by blast
  then show ?case
    using here by simp
qed

lemma re_search_leftmost:
  assumes "list_all (\<lambda>k. \<not> begins_with_version (drop k (pre @ t))) [0..<length pre]"
    and "match_LKGM t = Some x"
  shows "re_search match_LKGM (pre @ t) = Some x"
proof -
  have "match_LKGM (drop k (pre @ t)) = None" if "k < length pre" for k
  proof (cases "match_LKGM (drop k (pre @ t))")
    case None
    then show ?thesis .
  next
    case (Some y)
    then have "begins_with_version (drop k (pre @ t))"
      by (rule match_LKGM_begins)
    moreover have "\<not> begins_with_version (drop k (pre @ t))"
      using assms(1) that unfolding list_all_upt by blast
    ultimately show ?thesis
      by blast
  qed
  then have "list_all (\<lambda>k. match_LKGM (drop k (pre @ t)) = None) [0..<length pre]"
    unfolding list_all_upt by blast
  then have "re_search match_LKGM (pre @ t) = re_search match_LKGM t"
    by (rule re_search_skip)
  then show ?thesis
    using assms(2) by (simp add: re_search_here)
qed

lemma re_search_found: "m t \<noteq> None \<Longrightarrow> re_search m (pre @ t) \<noteq> None"
proof (induction pre)
  case Nil
  then show ?case by (cases t) (auto split: option.splits)
next
  case (Cons c pre)
  then show ?case by (auto split: option.splits)
qed

lemma begins_with_version_digit: "begins_with_version t \<Longrightarrow> \<exists>c cs. t = c # cs \<and> is_digit c"
  unfolding begins_with_version_def digit_run_def version_text_def
  by (auto simp: neq_Nil_conv)

lemma digit_free_prefix:
  assumes "list_all (\<lambda>c. \<not> is_digit c) pre"
  shows "list_all (\<lambda>k. \<not> begins_with_version (drop k (pre @ t))) [0..<length pre]"
proof -
  have "\<not> begins_with_version (drop k (pre @ t))" if "k < length pre" for k
  proof -
    have "drop k (pre @ t) = pre ! k # drop (Suc k) pre @ t"
      using that by (simp add: Cons_nth_drop_Suc)
    moreover have "\<not> is_digit (pre ! k)"
      using assms that by (simp add: list_all_length)
    ultimately show ?thesis
      by (auto dest: begins_with_version_digit)
  qed
  then show ?thesis
    unfolding list_all_upt by blast
qed


lemma no_digit_ahead_dropWhile: "no_digit_ahead (dropWhile is_digit r)"
  by (induction r) (simp_all add: no_digit_ahead_def)

lemma list_all_takeWhile: "list_all P (takeWhile P xs)"
  by (induction xs) simp_all

lemma match_version_found:
  assumes "digit_run a" "digit_run b" "digit_run c" "digit_run d"
  shows "\<exists>d' r'. match_version (version_text (a, b, c, d) @ r) = Some ((a, b, c, d'), r')"
proof -
  define d' where "d' = d @ takeWhile is_digit r"
  define r' where "r' = dropWhile is_digit r"
  have run: "digit_run d'"
    using assms(4) by (simp add: d'_def digit_run_def list_all_takeWhile)
  have ahead: "no_digit_ahead r'"
    unfolding r'_def by (rule no_digit_ahead_dropWhile)
  have "d @ r = d' @ r'"
    by (simp add: d'_def r'_def)
  then have eq: "version_text (a, b, c, d) @ r = version_text (a, b, c, d') @ r'"
    by (simp add: version_text_def)
  have "match_version (version_text (a, b, c, d') @ r') = Some ((a, b, c, d'), r')"
    using assms(1-3) run ahead by (rule match_version_text)
  then have "match_version (version_text (a, b, c, d) @ r) = Some ((a, b, c, d'), r')"
    by (simp only: eq)
  then show ?thesis
    by blast
qed

lemma begins_with_version_iff: "begins_with_version t = (match_version t \<noteq> None)"
proof
  assume "begins_with_version t"
  then obtain a b c d r where runs: "digit_run a" "digit_run b" "digit_run c" "digit_run d"
    and t: "t = version_text (a, b, c, d) @ r"
    unfolding begins_with_version_def by blast
  obtain d' r' where "match_version (version_text (a, b, c, d) @ r) = Some ((a, b, c, d'), r')"
    using match_version_found [OF runs] by blast
  then show "match_version t \<noteq> None"
    by (simp only: t option.distinct not_False_eq_True)
next
  assume "match_version t \<noteq> None"
  then obtain v r where v: "match_version t = Some (v, r)"
    by (cases "match_version t") auto
  obtain a b c d where "v = (a, b, c, d)"
    by (cases v) auto
  with v have m: "match_version t = Some ((a, b, c, d), r)"
    by simp
  have "t = version_text (a, b, c, d) @ r"
    using m by (rule match_version_split)
  moreover have "digit_run a \<and> digit_run b \<and> digit_run c \<and> digit_run d"
    using m by (rule match_version_Some)
  ultimately show "begins_with_version t"
    unfolding begins_with_version_def by blast
qed

lemma match_LKGM_found:
  assumes "digit_run a" "digit_run b" "digit_run c" "digit_run d"
  shows "match_LKGM (version_text (a, b, c, d) @ r) \<noteq> None"
proof -
  obtain d' r' where "match_version (version_text (a, b, c, d) @ r) = Some ((a, b, c, d'), r')"
    using match_version_found [OF assms] by blast
  then show ?thesis
    by (simp add: match_LKGM_def split: option.splits prod.splits)
qed

lemma match_LKGM_suffix_rest:
  assumes "digit_run a" "digit_run b" "digit_run c" "digit_run d" "digit_run n" "no_digit_ahead r"
  shows "match_LKGM (version_text (a, b, c, d) @ ''-rc'' @ n @ r) = Some ((a, b, c, d), Some n)"
proof -
  have "match_version (version_text (a, b, c, d) @ ''-rc'' @ n @ r) =
          Some ((a, b, c, d), ''-rc'' @ n @ r)"
    using assms by (intro match_version_text) simp_all
  moreover have "match_lit ''-rc'' (''-rc'' @ n @ r) = Some (n @ r)"
    by (simp add: match_lit_def)
  moreover have "match_num (n @ r) = Some (n, r)"
    using assms(5,6) by (rule match_num_run)
  ultimately show ?thesis
    by (simp add: match_LKGM_def)
qed

lemma match_LKGM_no_suffix:
  assumes "digit_run a" "digit_run b" "digit_run c" "digit_run d" "no_digit_ahead rest"
    and "\<not> (\<exists>n r. digit_run n \<and> rest = ''-rc'' @ n @ r)"
  shows "match_LKGM (version_text (a, b, c, d) @ rest) = Some ((a, b, c, d), None)"
proof -
  have v: "match_version (version_text (a, b, c, d) @ rest) = Some ((a, b, c, d), rest)"
    using assms(1-5) by (rule match_version_text)
  show ?thesis
  proof (cases "match_lit ''-rc'' rest")
    case None
    then show ?thesis
      by (simp add: match_LKGM_def v)
  next
    case (Some r')
    then have rest: "rest = ''-rc'' @ r'"
      by (rule match_lit_split)
    have "match_num r' = None"
    proof (cases "match_num r'")
      case None
      then show ?thesis .
    next
      case (Some x)
      obtain n r where "x = (n, r)"
        by (cases x) auto
      with Some have "digit_run n" and "r' = n @ r"
        by (auto dest: match_num_Some match_num_split)
      with rest assms(6) show ?thesis
        by blast
    qed
    with Some show ?thesis
      by (simp add: match_LKGM_def v)
  qed
qed

lemma init_of_match:
  assumes "re_search match_LKGM s = Some ((a, b, c, d), g2)"
  shows "LKGMCandidateInfo_init load (PyStr s) vf =
           Inr \<lparr>ver_maj = nat_of_digits a, ver_min = nat_of_digits b, ver_sp = nat_of_digits c,
                ver_patch = nat_of_digits d,
                ver_revision = (case g2 of None \<Rightarrow> RevInt 1 | Some n \<Rightarrow> RevText n),
                version_revision = None\<rparr>"
proof -
  obtain t where "match_LKGM t = Some ((a, b, c, d), g2)"
    using assms by (auto dest: re_search_Some)
  then have runs: "digit_run a" "digit_run b" "digit_run c" "digit_run d"
    and g2: "case g2 of None \<Rightarrow> True | Some n \<Rightarrow> digit_run n"
    by (auto dest: match_LKGM_Some)
  have ne: "s \<noteq> []"
    using assms by (cases s) simp_all
  have p: "VersionInfo_Parse (version_text (a, b, c, d)) =
             Inr \<lparr>ver_maj = nat_of_digits a, ver_min = nat_of_digits b,
                  ver_sp = nat_of_digits c, ver_patch = nat_of_digits d\<rparr>"
    using runs by (rule VersionInfo_Parse_text)
  show ?thesis
  proof (cases g2)
    case None
    then show ?thesis
      using ne assms p by (simp add: LKGMCandidateInfo_init_def lkgm_of_def)
  next
    case (Some n)
    then have "digit_run n"
      using g2 by simp
    then show ?thesis
      using Some ne assms p
      by (simp add: LKGMCandidateInfo_init_def lkgm_of_def digit_run_def)
  qed
qed

lemma init_of_match_revision:
  assumes "re_search match_LKGM s = Some ((a, b, c, d), g2)"
  shows "\<exists>n. rev_int (case g2 of None \<Rightarrow> RevInt 1 | Some m \<Rightarrow> RevText m) = Inr n \<and> 0 \<le> n"
proof (cases g2)
  case None
  then show ?thesis by simp
next
  case (Some m)
  obtain t where "match_LKGM t = Some ((a, b, c, d), g2)"
    using assms by (auto dest: re_search_Some)
  then have "digit_run m"
    using Some by (auto dest: match_LKGM_Some)
  then show ?thesis
    using Some by (simp add: digit_run_def)
qed

section \<open>Claims about _LKGMCandidateInfo\<close>

text \<open>
  C4. For every candidate \<open>c\<close>, parsing the canonical text of \<open>c\<close> gives \<open>c\<close> back: the
  constructor succeeds on \<open>VersionString c\<close>, and the object it builds has the four
  components of \<open>c\<close>, the comparison key of \<open>c\<close> (so the same integer revision) and
  the canonical text of \<open>c\<close>. A bare version text without \<^verbatim>\<open>-rcN\<close> parses to the
  components of the version with revision 1, and that candidate round-trips too.
  Equality of candidates is equality of the integer tuple and of the canonical text:
  the class defines no other, and the constructor keeps the digits of the suffix as a
  text where the default is the integer 1.
\<close>

theorem LKGMCandidateInfo_roundtrip:
  assumes "wf_revision (ver_revision c)"
  shows "(\<exists>c'. LKGMCandidateInfo_init load (PyStr (VersionString c)) vf = Inr c' \<and>
            ver_maj c' = ver_maj c \<and> ver_min c' = ver_min c \<and>
            ver_sp c' = ver_sp c \<and> ver_patch c' = ver_patch c \<and>
            compare_key c' = compare_key c \<and> VersionString c' = VersionString c) \<and>
         (\<exists>b b'. LKGMCandidateInfo_init load (PyStr (VersionInfo_VersionString v)) vf = Inr b \<and>
            ver_maj b = ver_maj v \<and> ver_min b = ver_min v \<and>
            ver_sp b = ver_sp v \<and> ver_patch b = ver_patch v \<and>
            ver_revision b = RevInt 1 \<and>
            LKGMCandidateInfo_init load (PyStr (VersionString b)) vf = Inr b' \<and>
            compare_key b' = compare_key b \<and> VersionString b' = VersionString b \<and>
            compare_key b =
              Inr [int (ver_maj v), int (ver_min v), int (ver_sp v), int (ver_patch v), 1])"
proof (intro conjI)
  let ?c' = "\<lparr>ver_maj = ver_maj c, ver_min = ver_min c, ver_sp = ver_sp c,
               ver_patch = ver_patch c, ver_revision = RevText (rev_str (ver_revision c)),
               version_revision = None\<rparr>"
  have "LKGMCandidateInfo_init load (PyStr (VersionString c)) vf = Inr ?c'"
    using assms by (rule init_VersionString)
  moreover have "compare_key ?c' = compare_key c"
    using assms by (rule compare_key_reparsed)
  moreover have "VersionString ?c' = VersionString c"
    by (simp add: VersionString_def)
  ultimately show "\<exists>c'. LKGMCandidateInfo_init load (PyStr (VersionString c)) vf = Inr c' \<and>
            ver_maj c' = ver_maj c \<and> ver_min c' = ver_min c \<and>
            ver_sp c' = ver_sp c \<and> ver_patch c' = ver_patch c \<and>
            compare_key c' = compare_key c \<and> VersionString c' = VersionString c"
    by (intro exI [of _ ?c']) simp
next
  let ?b = "\<lparr>ver_maj = ver_maj v, ver_min = ver_min v, ver_sp = ver_sp v,
              ver_patch = ver_patch v, ver_revision = RevInt 1, version_revision = None\<rparr>"
  let ?b' = "\<lparr>ver_maj = ver_maj v, ver_min = ver_min v, ver_sp = ver_sp v,
               ver_patch = ver_patch v, ver_revision = RevText (rev_str (RevInt 1)),
               version_revision = None\<rparr>"
  have wf: "wf_revision (ver_revision ?b)"
    by (simp add: wf_revision_def)
  have 1: "LKGMCandidateInfo_init load (PyStr (VersionInfo_VersionString v)) vf = Inr ?b"
    by (rule init_VersionInfo_VersionString)
  have 2: "LKGMCandidateInfo_init load (PyStr (VersionString ?b)) vf = Inr ?b'"
    using init_VersionString [OF wf, of load vf] by simp
  have 3: "compare_key ?b' = compare_key ?b"
    using compare_key_reparsed [OF wf] by simp
  have 4: "VersionString ?b' = VersionString ?b"
    by (simp add: VersionString_def)
  have 5: "compare_key ?b =
             Inr [int (ver_maj v), int (ver_min v), int (ver_sp v), int (ver_patch v), 1]"
    by (simp add: compare_key_def)
  show "\<exists>b b'. LKGMCandidateInfo_init load (PyStr (VersionInfo_VersionString v)) vf = Inr b \<and>
            ver_maj b = ver_maj v \<and> ver_min b = ver_min v \<and>
            ver_sp b = ver_sp v \<and> ver_patch b = ver_patch v \<and>
            ver_revision b = RevInt 1 \<and>
            LKGMCandidateInfo_init load (PyStr (VersionString b)) vf = Inr b' \<and>
            compare_key b' = compare_key b \<and> VersionString b' = VersionString b \<and>
            compare_key b =
              Inr [int (ver_maj v), int (ver_min v), int (ver_sp v), int (ver_patch v), 1]"
    using 1 2 3 4 5 by (intro exI [of _ ?b] exI [of _ ?b']) simp
qed

text \<open>
  The round trip at the candidate \<^verbatim>\<open>1.2.0.10-rc3\<close> and the version \<^verbatim>\<open>1.2.0.10\<close>: here the
  parsed object is the candidate itself.
\<close>

theorem LKGMCandidateInfo_roundtrip_witness:
  "wf_revision (RevText ''3'') \<and>
   VersionString \<lparr>ver_maj = 1, ver_min = 2, ver_sp = 0, ver_patch = 10,
       ver_revision = RevText ''3'', version_revision = None\<rparr> = ''1.2.0.10-rc3'' \<and>
   LKGMCandidateInfo_init (\<lambda>f. Inl (OtherError ''no version file'')) (PyStr ''1.2.0.10-rc3'') PyNone =
     Inr \<lparr>ver_maj = 1, ver_min = 2, ver_sp = 0, ver_patch = 10,
          ver_revision = RevText ''3'', version_revision = None\<rparr> \<and>
   (\<exists>c'. LKGMCandidateInfo_init (\<lambda>f. Inl (OtherError ''no version file''))
            (PyStr (VersionString \<lparr>ver_maj = 1, ver_min = 2, ver_sp = 0, ver_patch = 10,
               ver_revision = RevText ''3'', version_revision = None\<rparr>)) PyNone = Inr c' \<and>
          compare_key c' = Inr [1, 2, 0, 10, 3]) \<and>
   (\<exists>b. LKGMCandidateInfo_init (\<lambda>f. Inl (OtherError ''no version file''))
            (PyStr (VersionInfo_VersionString \<lparr>ver_maj = 1, ver_min = 2, ver_sp = 0, ver_patch = 10\<rparr>))
            PyNone = Inr b \<and> ver_revision b = RevInt 1)"
proof -
  let ?c = "\<lparr>ver_maj = 1, ver_min = 2, ver_sp = 0, ver_patch = 10,
              ver_revision = RevText ''3'', version_revision = None\<rparr>"
  let ?v = "\<lparr>ver_maj = 1, ver_min = 2, ver_sp = 0, ver_patch = 10\<rparr>"
  let ?load = "\<lambda>f::py_value. Inl (OtherError ''no version file'') :: py_error + version_info"
  have h: "wf_revision (ver_revision ?c)"
    by (simp add: wf_revision_def digit_run_def is_digit_def)
  have k: "compare_key ?c = Inr [1, 2, 0, 10, 3]"
    by code_simp
  have s: "VersionString ?c = ''1.2.0.10-rc3''"
    by code_simp
  have i: "LKGMCandidateInfo_init ?load (PyStr ''1.2.0.10-rc3'') PyNone = Inr ?c"
    by code_simp
  from LKGMCandidateInfo_roundtrip [OF h, of ?load PyNone ?v]
  have "(\<exists>c'. LKGMCandidateInfo_init ?load (PyStr (VersionString ?c)) PyNone = Inr c' \<and>
            compare_key c' = compare_key ?c) \<and>
        (\<exists>b. LKGMCandidateInfo_init ?load (PyStr (VersionInfo_VersionString ?v)) PyNone = Inr b \<and>
            ver_revision b = RevInt 1)"
    by blast
  with h k s i show ?thesis
    by simp
qed

text \<open>
  C5. The comparison key of a canonical text is the list of the five integers, and
  lists are ordered lexicographically: of two candidates that differ only in a
  smaller and a larger patch the first has the smaller key, and a candidate has a
  smaller key than the same version with the revision one higher.
\<close>

theorem VersionCompare_order:
  assumes "d1 < d2" and "wf_revision rv" and "0 \<le> r"
  shows "(\<exists>k1 k2.
            VersionCompare load (VersionString \<lparr>ver_maj = a, ver_min = b, ver_sp = c,
              ver_patch = d1, ver_revision = rv, version_revision = x\<rparr>) = Inr k1 \<and>
            VersionCompare load (VersionString \<lparr>ver_maj = a, ver_min = b, ver_sp = c,
              ver_patch = d2, ver_revision = rv, version_revision = x\<rparr>) = Inr k2 \<and>
            k1 < k2) \<and>
         VersionCompare load (VersionString \<lparr>ver_maj = a, ver_min = b, ver_sp = c,
              ver_patch = d1, ver_revision = RevInt r, version_revision = x\<rparr>) =
           Inr [int a, int b, int c, int d1, r] \<and>
         VersionCompare load (VersionString \<lparr>ver_maj = a, ver_min = b, ver_sp = c,
              ver_patch = d1, ver_revision = RevInt (r + 1), version_revision = x\<rparr>) =
           Inr [int a, int b, int c, int d1, r + 1] \<and>
         [int a, int b, int c, int d1, r] < [int a, int b, int c, int d1, r + 1]"
proof -
  obtain n where n: "rev_int rv = Inr n"
    using assms(2)
    by (cases rv) (auto simp: wf_revision_def digit_run_def)
  have k1: "VersionCompare load (VersionString \<lparr>ver_maj = a, ver_min = b, ver_sp = c,
              ver_patch = d1, ver_revision = rv, version_revision = x\<rparr>) =
            Inr [int a, int b, int c, int d1, n]"
    using assms(2) n by (simp add: VersionCompare_VersionString compare_key_def)
  have k2: "VersionCompare load (VersionString \<lparr>ver_maj = a, ver_min = b, ver_sp = c,
              ver_patch = d2, ver_revision = rv, version_revision = x\<rparr>) =
            Inr [int a, int b, int c, int d2, n]"
    using assms(2) n by (simp add: VersionCompare_VersionString compare_key_def)
  have lt: "[int a, int b, int c, int d1, n] < [int a, int b, int c, int d2, n]"
    using assms(1) by simp
  have r1: "VersionCompare load (VersionString \<lparr>ver_maj = a, ver_min = b, ver_sp = c,
              ver_patch = d1, ver_revision = RevInt r, version_revision = x\<rparr>) =
            Inr [int a, int b, int c, int d1, r]"
    using assms(3) by (simp add: VersionCompare_VersionString compare_key_def wf_revision_def)
  have r2: "VersionCompare load (VersionString \<lparr>ver_maj = a, ver_min = b, ver_sp = c,
              ver_patch = d1, ver_revision = RevInt (r + 1), version_revision = x\<rparr>) =
            Inr [int a, int b, int c, int d1, r + 1]"
    using assms(3) by (simp add: VersionCompare_VersionString compare_key_def wf_revision_def)
  have lt2: "[int a, int b, int c, int d1, r] < [int a, int b, int c, int d1, r + 1]"
    by simp
  show ?thesis
    using k1 k2 lt r1 r2 lt2 by blast
qed

text \<open>
  The order at patches 9 and 10, where the texts compared as raw strings are in the
  opposite order.
\<close>

theorem VersionCompare_order_witness:
  "(9::nat) < 10 \<and> wf_revision (RevInt 1) \<and> (0::int) \<le> 1 \<and>
   VersionString \<lparr>ver_maj = 1, ver_min = 2, ver_sp = 0, ver_patch = 9,
       ver_revision = RevInt 1, version_revision = None\<rparr> = ''1.2.0.9-rc1'' \<and>
   VersionString \<lparr>ver_maj = 1, ver_min = 2, ver_sp = 0, ver_patch = 10,
       ver_revision = RevInt 1, version_revision = None\<rparr> = ''1.2.0.10-rc1'' \<and>
   \<not> ''1.2.0.9-rc1'' < ''1.2.0.10-rc1'' \<and>
   (\<exists>k1 k2.
      VersionCompare (\<lambda>f. Inl (OtherError ''no version file'')) ''1.2.0.9-rc1'' = Inr k1 \<and>
      VersionCompare (\<lambda>f. Inl (OtherError ''no version file'')) ''1.2.0.10-rc1'' = Inr k2 \<and>
      k1 < k2) \<and>
   VersionCompare (\<lambda>f. Inl (OtherError ''no version file'')) ''1.2.0.9-rc1'' = Inr [1, 2, 0, 9, 1] \<and>
   VersionCompare (\<lambda>f. Inl (OtherError ''no version file'')) ''1.2.0.9-rc2'' = Inr [1, 2, 0, 9, 2]"
proof -
  let ?load = "\<lambda>f::py_value. Inl (OtherError ''no version file'') :: py_error + version_info"
  have h1: "(9::nat) < 10" by simp
  have h2: "wf_revision (RevInt 1)" by (simp add: wf_revision_def)
  have h3: "(0::int) \<le> 1" by simp
  have s9: "VersionString \<lparr>ver_maj = 1, ver_min = 2, ver_sp = 0, ver_patch = 9,
       ver_revision = RevInt 1, version_revision = None\<rparr> = ''1.2.0.9-rc1''"
    by code_simp
  have s10: "VersionString \<lparr>ver_maj = 1, ver_min = 2, ver_sp = 0, ver_patch = 10,
       ver_revision = RevInt 1, version_revision = None\<rparr> = ''1.2.0.10-rc1''"
    by code_simp
  have s92: "VersionString \<lparr>ver_maj = 1, ver_min = 2, ver_sp = 0, ver_patch = 9,
       ver_revision = RevInt (1 + 1), version_revision = None\<rparr> = ''1.2.0.9-rc2''"
    by code_simp
  have raw: "\<not> ''1.2.0.9-rc1'' < ''1.2.0.10-rc1''"
    by code_simp
  note t = VersionCompare_order [OF h1 h2 h3, of ?load 1 2 0 None]
  show ?thesis
    using t h1 h2 h3 raw unfolding s9 s10 s92 by auto
qed

text \<open>
  C9, as the code has it. Every text that contains the version pattern (four runs
  of digits \<open>a\<close>, \<open>b\<close>, \<open>c\<close>, \<open>d\<close> with dots between them, after any text
  \<open>pre\<close> and before any text \<open>rest\<close>) is accepted by the constructor, with a
  revision that is an integer and not negative. When no version begins earlier in the
  text and \<^verbatim>\<open>-rcN\<close> follows the version, \<open>N\<close> a whole run of digits, the candidate
  has the four numbers and the revision \<open>N\<close>, which is 0 for \<^verbatim>\<open>-rc0\<close>; when what follows
  is not \<^verbatim>\<open>-rc\<close> and a digit, the revision is 1.
\<close>

theorem LKGMCandidateInfo_revision:
  assumes "digit_run a" "digit_run b" "digit_run c" "digit_run d"
  shows
    "(\<exists>cand n. LKGMCandidateInfo_init load (PyStr (pre @ version_text (a, b, c, d) @ rest)) vf =
         Inr cand \<and> rev_int (ver_revision cand) = Inr n \<and> 0 \<le> n) \<and>
     (\<forall>n r.
        list_all (\<lambda>k. \<not> begins_with_version
                    (drop k (pre @ version_text (a, b, c, d) @ ''-rc'' @ n @ r))) [0..<length pre] \<and>
        digit_run n \<and> no_digit_ahead r \<longrightarrow>
        LKGMCandidateInfo_init load (PyStr (pre @ version_text (a, b, c, d) @ ''-rc'' @ n @ r)) vf =
          Inr \<lparr>ver_maj = nat_of_digits a, ver_min = nat_of_digits b, ver_sp = nat_of_digits c,
               ver_patch = nat_of_digits d, ver_revision = RevText n, version_revision = None\<rparr> \<and>
        rev_int (RevText n) = Inr (int (nat_of_digits n))) \<and>
     (list_all (\<lambda>k. \<not> begins_with_version
                    (drop k (pre @ version_text (a, b, c, d) @ rest))) [0..<length pre] \<and>
        no_digit_ahead rest \<and> \<not> (\<exists>n r. digit_run n \<and> rest = ''-rc'' @ n @ r) \<longrightarrow>
        LKGMCandidateInfo_init load (PyStr (pre @ version_text (a, b, c, d) @ rest)) vf =
          Inr \<lparr>ver_maj = nat_of_digits a, ver_min = nat_of_digits b, ver_sp = nat_of_digits c,
               ver_patch = nat_of_digits d, ver_revision = RevInt 1, version_revision = None\<rparr> \<and>
        rev_int (RevInt 1) = Inr 1)"
proof (intro conjI allI impI)
  have "match_LKGM (version_text (a, b, c, d) @ rest) \<noteq> None"
    using assms by (rule match_LKGM_found)
  then have "re_search match_LKGM (pre @ version_text (a, b, c, d) @ rest) \<noteq> None"
    by (rule re_search_found)
  then obtain x where x: "re_search match_LKGM (pre @ version_text (a, b, c, d) @ rest) = Some x"
    by (cases "re_search match_LKGM (pre @ version_text (a, b, c, d) @ rest)") auto
  obtain a' b' c' d' g2 where "x = ((a', b', c', d'), g2)"
    by (cases x) auto
  with x have m: "re_search match_LKGM (pre @ version_text (a, b, c, d) @ rest) =
      Some ((a', b', c', d'), g2)"
    by simp
  obtain n where "rev_int (case g2 of None \<Rightarrow> RevInt 1 | Some m \<Rightarrow> RevText m) = Inr n" "0 \<le> n"
    using init_of_match_revision [OF m] by blast
  then show "\<exists>cand n. LKGMCandidateInfo_init load (PyStr (pre @ version_text (a, b, c, d) @ rest)) vf =
         Inr cand \<and> rev_int (ver_revision cand) = Inr n \<and> 0 \<le> n"
    by (simp add: init_of_match [OF m])
next
  fix n r
  assume h: "list_all (\<lambda>k. \<not> begins_with_version
                    (drop k (pre @ version_text (a, b, c, d) @ ''-rc'' @ n @ r))) [0..<length pre] \<and>
        digit_run n \<and> no_digit_ahead r"
  then have n: "digit_run n" and r: "no_digit_ahead r"
    and first: "list_all (\<lambda>k. \<not> begins_with_version
                    (drop k (pre @ version_text (a, b, c, d) @ ''-rc'' @ n @ r))) [0..<length pre]"
    by blast+
  have "match_LKGM (version_text (a, b, c, d) @ ''-rc'' @ n @ r) = Some ((a, b, c, d), Some n)"
    using assms n r by (rule match_LKGM_suffix_rest)
  with first have m: "re_search match_LKGM (pre @ version_text (a, b, c, d) @ ''-rc'' @ n @ r) =
      Some ((a, b, c, d), Some n)"
    by (rule re_search_leftmost)
  show "LKGMCandidateInfo_init load (PyStr (pre @ version_text (a, b, c, d) @ ''-rc'' @ n @ r)) vf =
          Inr \<lparr>ver_maj = nat_of_digits a, ver_min = nat_of_digits b, ver_sp = nat_of_digits c,
               ver_patch = nat_of_digits d, ver_revision = RevText n, version_revision = None\<rparr>"
    using init_of_match [OF m, of load vf] by (simp only: option.case)
  show "rev_int (RevText n) = Inr (int (nat_of_digits n))"
    using n by (simp add: digit_run_def)
next
  assume h: "list_all (\<lambda>k. \<not> begins_with_version
                    (drop k (pre @ version_text (a, b, c, d) @ rest))) [0..<length pre] \<and>
        no_digit_ahead rest \<and> \<not> (\<exists>n r. digit_run n \<and> rest = ''-rc'' @ n @ r)"
  then have ahead: "no_digit_ahead rest"
    and absent: "\<not> (\<exists>n r. digit_run n \<and> rest = ''-rc'' @ n @ r)"
    and first: "list_all (\<lambda>k. \<not> begins_with_version
                    (drop k (pre @ version_text (a, b, c, d) @ rest))) [0..<length pre]"
    by blast+
  have "match_LKGM (version_text (a, b, c, d) @ rest) = Some ((a, b, c, d), None)"
    using assms ahead absent by (rule match_LKGM_no_suffix)
  with first have m: "re_search match_LKGM (pre @ version_text (a, b, c, d) @ rest) =
      Some ((a, b, c, d), None)"
    by (rule re_search_leftmost)
  show "LKGMCandidateInfo_init load (PyStr (pre @ version_text (a, b, c, d) @ rest)) vf =
          Inr \<lparr>ver_maj = nat_of_digits a, ver_min = nat_of_digits b, ver_sp = nat_of_digits c,
               ver_patch = nat_of_digits d, ver_revision = RevInt 1, version_revision = None\<rparr>"
    using init_of_match [OF m, of load vf] by (simp only: option.case)
  show "rev_int (RevInt 1) = Inr 1"
    by simp
qed

text \<open>
  The text \<^verbatim>\<open>build 1.2.3.4-rc12 done\<close> gives revision 12, and \<^verbatim>\<open>build 1.2.3.4 done\<close>
  gives revision 1.
\<close>

theorem LKGMCandidateInfo_revision_witness:
  "digit_run ''1'' \<and> digit_run ''2'' \<and> digit_run ''3'' \<and> digit_run ''4'' \<and>
   digit_run ''12'' \<and> no_digit_ahead '' done'' \<and>
   list_all (\<lambda>c. \<not> is_digit c) ''build '' \<and>
   \<not> (\<exists>n r. digit_run n \<and> '' done'' = ''-rc'' @ n @ r) \<and>
   LKGMCandidateInfo_init (\<lambda>f. Inl (OtherError ''no version file''))
       (PyStr ''build 1.2.3.4-rc12 done'') PyNone =
     Inr \<lparr>ver_maj = 1, ver_min = 2, ver_sp = 3, ver_patch = 4,
          ver_revision = RevText ''12'', version_revision = None\<rparr> \<and>
   rev_int (RevText ''12'') = Inr 12 \<and>
   LKGMCandidateInfo_init (\<lambda>f. Inl (OtherError ''no version file''))
       (PyStr ''build 1.2.3.4 done'') PyNone =
     Inr \<lparr>ver_maj = 1, ver_min = 2, ver_sp = 3, ver_patch = 4,
          ver_revision = RevInt 1, version_revision = None\<rparr>"
proof -
  let ?load = "\<lambda>f::py_value. Inl (OtherError ''no version file'') :: py_error + version_info"
  have runs: "digit_run ''1''" "digit_run ''2''" "digit_run ''3''" "digit_run ''4''"
    by (simp_all add: digit_run_def is_digit_def)
  have n: "digit_run ''12''"
    by (simp add: digit_run_def is_digit_def)
  have r: "no_digit_ahead '' done''"
    by (simp add: no_digit_ahead_def is_digit_def)
  have free: "list_all (\<lambda>c. \<not> is_digit c) ''build ''"
    by (simp add: is_digit_def)
  have absent: "\<not> (\<exists>n r. digit_run n \<and> '' done'' = ''-rc'' @ n @ r)"
    by simp
  have first1: "list_all (\<lambda>k. \<not> begins_with_version
      (drop k (''build '' @ version_text (''1'', ''2'', ''3'', ''4'') @ ''-rc'' @ ''12'' @ '' done'')))
      [0..<length ''build '']"
    using free by (rule digit_free_prefix)
  have first2: "list_all (\<lambda>k. \<not> begins_with_version
      (drop k (''build '' @ version_text (''1'', ''2'', ''3'', ''4'') @ '' done'')))
      [0..<length ''build '']"
    using free by (rule digit_free_prefix)
  have nums: "nat_of_digits ''1'' = 1" "nat_of_digits ''2'' = 2" "nat_of_digits ''3'' = 3"
    "nat_of_digits ''4'' = 4" "int (nat_of_digits ''12'') = 12"
    by (simp_all add: nat_of_digits_def digit_val_def)
  note t = LKGMCandidateInfo_revision [OF runs, of ?load "''build ''" "'' done''" PyNone]
  have 1: "LKGMCandidateInfo_init ?load
       (PyStr (''build '' @ version_text (''1'', ''2'', ''3'', ''4'') @ ''-rc'' @ ''12'' @ '' done'')) PyNone =
     Inr \<lparr>ver_maj = nat_of_digits ''1'', ver_min = nat_of_digits ''2'', ver_sp = nat_of_digits ''3'',
          ver_patch = nat_of_digits ''4'', ver_revision = RevText ''12'', version_revision = None\<rparr>"
    and 2: "rev_int (RevText ''12'') = Inr (int (nat_of_digits ''12''))"
    using t first1 n r by blast+
  have 3: "LKGMCandidateInfo_init ?load
       (PyStr (''build '' @ version_text (''1'', ''2'', ''3'', ''4'') @ '' done'')) PyNone =
     Inr \<lparr>ver_maj = nat_of_digits ''1'', ver_min = nat_of_digits ''2'', ver_sp = nat_of_digits ''3'',
          ver_patch = nat_of_digits ''4'', ver_revision = RevInt 1, version_revision = None\<rparr>"
    using t first2 r absent by blast
  have i1: "LKGMCandidateInfo_init ?load (PyStr ''build 1.2.3.4-rc12 done'') PyNone =
     Inr \<lparr>ver_maj = 1, ver_min = 2, ver_sp = 3, ver_patch = 4,
          ver_revision = RevText ''12'', version_revision = None\<rparr>"
    using 1 unfolding nums by (simp add: version_text_def)
  have i3: "LKGMCandidateInfo_init ?load (PyStr ''build 1.2.3.4 done'') PyNone =
     Inr \<lparr>ver_maj = 1, ver_min = 2, ver_sp = 3, ver_patch = 4,
          ver_revision = RevInt 1, version_revision = None\<rparr>"
    using 3 unfolding nums by (simp add: version_text_def)
  show ?thesis
    using runs n r free absent i1 2 i3 unfolding nums by (intro conjI)
qed

text \<open>
  C9 as the spec states it, with every revision at least 1, fails at
  \<^verbatim>\<open>1.2.3.4-rc0\<close>: the constructor builds a candidate whose revision is 0.
\<close>

theorem LKGMCandidateInfo_revision_zero:
  "\<forall>load vf.
     LKGMCandidateInfo_init load (PyStr ''1.2.3.4-rc0'') vf =
       Inr \<lparr>ver_maj = 1, ver_min = 2, ver_sp = 3, ver_patch = 4,
            ver_revision = RevText ''0'', version_revision = None\<rparr> \<and>
     rev_int (RevText ''0'') = Inr 0 \<and> \<not> (1::int) \<le> 0"
proof (intro allI conjI)
  fix load :: "py_value \<Rightarrow> py_error + version_info" and vf
  show "LKGMCandidateInfo_init load (PyStr ''1.2.3.4-rc0'') vf =
       Inr \<lparr>ver_maj = 1, ver_min = 2, ver_sp = 3, ver_patch = 4,
            ver_revision = RevText ''0'', version_revision = None\<rparr>"
    by code_simp
  show "rev_int (RevText ''0'') = Inr 0"
    by code_simp
  show "\<not> (1::int) \<le> 0"
    by simp
qed

text \<open>
  C2. \<^verbatim>\<open>IncrementVersion\<close> on the candidate that the constructor builds from
  \<^verbatim>\<open>1.2.0.0-rc1\<close> raises \<open>AttributeError\<close>: the object has no attribute
  \<^verbatim>\<open>version_revision\<close>. No candidate with revision 2 is returned.
\<close>

theorem IncrementVersion_raises:
  "LKGMCandidateInfo_init load (PyStr ''1.2.0.0-rc1'') vf =
     Inr \<lparr>ver_maj = 1, ver_min = 2, ver_sp = 0, ver_patch = 0,
          ver_revision = RevText ''1'', version_revision = None\<rparr> \<and>
   IncrementVersion \<lparr>ver_maj = 1, ver_min = 2, ver_sp = 0, ver_patch = 0,
          ver_revision = RevText ''1'', version_revision = None\<rparr> message dry_run =
     Inl AttributeError"
proof
  show "LKGMCandidateInfo_init load (PyStr ''1.2.0.0-rc1'') vf =
     Inr \<lparr>ver_maj = 1, ver_min = 2, ver_sp = 0, ver_patch = 0,
          ver_revision = RevText ''1'', version_revision = None\<rparr>"
    by code_simp
  show "IncrementVersion \<lparr>ver_maj = 1, ver_min = 2, ver_sp = 0, ver_patch = 0,
          ver_revision = RevText ''1'', version_revision = None\<rparr> message dry_run =
     Inl AttributeError"
    by (simp add: IncrementVersion_def)
qed

text \<open>
  Whatever the receiver, a call that returns has left \<^verbatim>\<open>ver_revision\<close>, the attribute
  that \<^verbatim>\<open>VersionString\<close> prints, as it was, and returns the text of the receiver.
\<close>

lemma IncrementVersion_keeps_revision:
  assumes "IncrementVersion self message dry_run = Inr (text, self')"
  shows "ver_revision self' = ver_revision self \<and> text = VersionString self"
  using assms
  by (auto simp: IncrementVersion_def Let_def VersionString_def split: option.splits)

section \<open>Claims about candidate generation\<close>

lemma init_method: "LKGMCandidateInfo_init load PyMethod vf = Inl TypeError"
  by (simp add: LKGMCandidateInfo_init_def)

text \<open>
  Whatever the published candidates and the baseline, \<^verbatim>\<open>_GetLatestLKGMCandidate\<close> never
  returns a candidate: it returns the sorted list or raises.
\<close>

lemma GetLatestLKGMCandidate_no_info: "GetLatestLKGMCandidate ops self v \<noteq> Inr (RetInfo c)"
  by (auto simp: GetLatestLKGMCandidate_def Let_def init_method split: sum.splits)

text \<open>
  C1. With the candidates \<^verbatim>\<open>1.2.0.0-rc1\<close> and \<^verbatim>\<open>1.2.0.0-rc2\<close> published for the baseline
  1.2.0.0, \<^verbatim>\<open>_GetLatestLKGMCandidate\<close> raises \<open>TypeError\<close> instead of selecting
  \<^verbatim>\<open>1.2.0.0-rc2\<close>: no entry equals the bare text \<^verbatim>\<open>1.2.0.0\<close>, and the fall-back hands a
  bound method to the constructor. With no candidate published it raises the same
  \<open>TypeError\<close> instead of building \<^verbatim>\<open>1.2.0.0-rc1\<close>. When entries do equal the
  baseline text, the result is the list of them, not one candidate. The
  \<open>TypeError\<close> leaves \<^verbatim>\<open>CreateNextLKGMCandidate\<close> as it is, before any build spec is
  created.
\<close>

theorem GetLatestLKGMCandidate_selects_nothing:
  "GetLatestLKGMCandidate ops (manager_at [''1.2.0.0-rc1'', ''1.2.0.0-rc2''] PyNone)
     \<lparr>ver_maj = 1, ver_min = 2, ver_sp = 0, ver_patch = 0\<rparr> = Inl TypeError \<and>
   GetLatestLKGMCandidate ops (manager_at [] PyNone)
     \<lparr>ver_maj = 1, ver_min = 2, ver_sp = 0, ver_patch = 0\<rparr> = Inl TypeError \<and>
   GetLatestLKGMCandidate ops (manager_at [''1.2.0.0'', ''1.2.0.0-rc2'', ''1.2.0.0''] PyNone)
     \<lparr>ver_maj = 1, ver_min = 2, ver_sp = 0, ver_patch = 0\<rparr> =
     Inr (RetList [''1.2.0.0'', ''1.2.0.0'']) \<and>
   fst (CreateNextLKGMCandidate
          (working_ops [''1.2.0.0-rc1'', ''1.2.0.0-rc2''] (PyStr ''1.2.0.0-rc3''))
          (manager_at [] PyNone) (PyStr ''chromeos_version.sh'') 0) = Inl TypeError \<and>
   call_names (snd (snd (CreateNextLKGMCandidate
          (working_ops [''1.2.0.0-rc1'', ''1.2.0.0-rc2''] (PyStr ''1.2.0.0-rc3''))
          (manager_at [] PyNone) (PyStr ''chromeos_version.sh'') 0))) =
     [''_GetCurrentVersionInfo'', ''_LoadSpecs'']"
proof (intro conjI)
  show "GetLatestLKGMCandidate ops (manager_at [''1.2.0.0-rc1'', ''1.2.0.0-rc2''] PyNone)
     \<lparr>ver_maj = 1, ver_min = 2, ver_sp = 0, ver_patch = 0\<rparr> = Inl TypeError"
    by code_simp
  show "GetLatestLKGMCandidate ops (manager_at [] PyNone)
     \<lparr>ver_maj = 1, ver_min = 2, ver_sp = 0, ver_patch = 0\<rparr> = Inl TypeError"
    by code_simp
  show "GetLatestLKGMCandidate ops (manager_at [''1.2.0.0'', ''1.2.0.0-rc2'', ''1.2.0.0''] PyNone)
     \<lparr>ver_maj = 1, ver_min = 2, ver_sp = 0, ver_patch = 0\<rparr> =
     Inr (RetList [''1.2.0.0'', ''1.2.0.0''])"
    by code_simp
  show "fst (CreateNextLKGMCandidate
          (working_ops [''1.2.0.0-rc1'', ''1.2.0.0-rc2''] (PyStr ''1.2.0.0-rc3''))
          (manager_at [] PyNone) (PyStr ''chromeos_version.sh'') 0) = Inl TypeError"
    by code_simp
  show "call_names (snd (snd (CreateNextLKGMCandidate
          (working_ops [''1.2.0.0-rc1'', ''1.2.0.0-rc2''] (PyStr ''1.2.0.0-rc3''))
          (manager_at [] PyNone) (PyStr ''chromeos_version.sh'') 0))) =
     [''_GetCurrentVersionInfo'', ''_LoadSpecs'']"
    by code_simp
qed

lemma fst_handle_failure:
  "fst (handle_failure prefix r) =
     (case fst r of Inl e \<Rightarrow> Inl (raised_as prefix e) | Inr v \<Rightarrow> Inr v)"
  by (cases r) (auto simp: handle_failure_def raised_as_def split: sum.splits option.splits)

lemma call_names_append: "call_names (xs @ ys) = call_names xs @ call_names ys"
  by (induction xs rule: call_names.induct) simp_all

lemma call_names_handle_failure:
  "call_names (snd (snd (handle_failure prefix r))) = call_names (snd (snd r))"
  by (cases r)
     (auto simp: handle_failure_def call_names_append split: sum.splits option.splits)

lemma call_names_Create_try:
  "call_names (snd (snd (CreateNextLKGMCandidate_try ops self vf))) \<in>
     {[''_GetCurrentVersionInfo''],
      [''_GetCurrentVersionInfo'', ''_LoadSpecs''],
      [''_GetCurrentVersionInfo'', ''_LoadSpecs'', ''_CreateNewBuildSpec''],
      [''_GetCurrentVersionInfo'', ''_LoadSpecs'', ''_CreateNewBuildSpec'', ''_SetInFlight'']}"
  by (simp add: CreateNextLKGMCandidate_try_def Let_def split: sum.splits prod.splits)

lemma call_names_GetNext_try:
  "call_names (snd (snd (GetNextLKGMCandidate_try ops self vf))) \<in>
     {[''_GetCurrentVersionInfo''],
      [''_GetCurrentVersionInfo'', ''_LoadSpecs''],
      [''_GetCurrentVersionInfo'', ''_LoadSpecs'', ''_SetInFlight'']}"
  by (simp add: GetNextLKGMCandidate_try_def Let_def split: sum.splits prod.splits)

lemma distinct_calls_Create:
  "distinct (call_names (snd (snd (CreateNextLKGMCandidate ops self vf n))))"
proof -
  have "distinct xs"
    if "xs \<in> {[''_GetCurrentVersionInfo''],
      [''_GetCurrentVersionInfo'', ''_LoadSpecs''],
      [''_GetCurrentVersionInfo'', ''_LoadSpecs'', ''_CreateNewBuildSpec''],
      [''_GetCurrentVersionInfo'', ''_LoadSpecs'', ''_CreateNewBuildSpec'', ''_SetInFlight'']}"
    for xs :: "string list"
    using that by auto
  then show ?thesis
    unfolding CreateNextLKGMCandidate_def call_names_handle_failure
    using call_names_Create_try by blast
qed

lemma distinct_calls_GetNext:
  "distinct (call_names (snd (snd (GetNextLKGMCandidate ops self vf n))))"
proof -
  have "distinct xs"
    if "xs \<in> {[''_GetCurrentVersionInfo''],
      [''_GetCurrentVersionInfo'', ''_LoadSpecs''],
      [''_GetCurrentVersionInfo'', ''_LoadSpecs'', ''_SetInFlight'']}"
    for xs :: "string list"
    using that by auto
  then show ?thesis
    unfolding GetNextLKGMCandidate_def call_names_handle_failure
    using call_names_GetNext_try by blast
qed

text \<open>
  C8, as the code has it. Both entry points ignore \<open>retries\<close> and call each
  collaborator at most once. Whatever the \<^verbatim>\<open>try\<close> block raises, the entry point
  raises what the \<^verbatim>\<open>except\<close> clause makes of it, and what the block returns it
  returns. This is spelt out for each collaborator that can fail:
  \<^verbatim>\<open>_GetCurrentVersionInfo\<close>, \<^verbatim>\<open>_LoadSpecs\<close>, \<^verbatim>\<open>_CreateNewBuildSpec\<close> and
  \<^verbatim>\<open>_SetInFlight\<close>. The \<^verbatim>\<open>except\<close> clause turns a \<open>RunCommandError\<close> and a
  \<open>GitCommandException\<close> into a \<open>GenerateBuildSpecException\<close> with the prefixed
  message, and leaves every other exception as it is.
\<close>

theorem generation_failures:
  "CreateNextLKGMCandidate ops self vf n = CreateNextLKGMCandidate ops self vf 0 \<and>
   GetNextLKGMCandidate ops self vf n = GetNextLKGMCandidate ops self vf 0 \<and>
   distinct (call_names (snd (snd (CreateNextLKGMCandidate ops self vf n)))) \<and>
   distinct (call_names (snd (snd (GetNextLKGMCandidate ops self vf n)))) \<and>
   (\<forall>e. fst (CreateNextLKGMCandidate_try ops self vf) = Inl e \<longrightarrow>
      fst (CreateNextLKGMCandidate ops self vf n) =
        Inl (raised_as ''Failed to generate LKGM Candidate. error: '' e)) \<and>
   (\<forall>e. fst (GetNextLKGMCandidate_try ops self vf) = Inl e \<longrightarrow>
      fst (GetNextLKGMCandidate ops self vf n) =
        Inl (raised_as ''Failed to get next LKGM Candidate. error: '' e)) \<and>
   (\<forall>x. fst (CreateNextLKGMCandidate_try ops self vf) = Inr x \<longrightarrow>
      fst (CreateNextLKGMCandidate ops self vf n) = Inr x) \<and>
   (\<forall>x. fst (GetNextLKGMCandidate_try ops self vf) = Inr x \<longrightarrow>
      fst (GetNextLKGMCandidate ops self vf n) = Inr x) \<and>
   (\<forall>e. GetCurrentVersionInfo ops self vf = Inl e \<longrightarrow>
      fst (CreateNextLKGMCandidate ops self vf n) =
        Inl (raised_as ''Failed to generate LKGM Candidate. error: '' e) \<and>
      fst (GetNextLKGMCandidate ops self vf n) =
        Inl (raised_as ''Failed to get next LKGM Candidate. error: '' e)) \<and>
   (\<forall>v e. GetCurrentVersionInfo ops self vf = Inr v \<and>
      LoadSpecs ops self v ''LKGM-candidates'' = Inl e \<longrightarrow>
      fst (CreateNextLKGMCandidate ops self vf n) =
        Inl (raised_as ''Failed to generate LKGM Candidate. error: '' e) \<and>
      fst (GetNextLKGMCandidate ops self vf n) =
        Inl (raised_as ''Failed to get next LKGM Candidate. error: '' e)) \<and>
   (\<forall>v self1 lkgm e. GetCurrentVersionInfo ops self vf = Inr v \<and>
      LoadSpecs ops self v ''LKGM-candidates'' = Inr self1 \<and>
      GetLatestLKGMCandidate ops self1 v = Inr lkgm \<and>
      CreateNewBuildSpec ops self1 lkgm = Inl e \<longrightarrow>
      fst (CreateNextLKGMCandidate ops self vf n) =
        Inl (raised_as ''Failed to generate LKGM Candidate. error: '' e)) \<and>
   (\<forall>v self1 lkgm version self2 e. GetCurrentVersionInfo ops self vf = Inr v \<and>
      LoadSpecs ops self v ''LKGM-candidates'' = Inr self1 \<and>
      GetLatestLKGMCandidate ops self1 v = Inr lkgm \<and>
      CreateNewBuildSpec ops self1 lkgm = Inr (version, self2) \<and>
      truthy version \<and>
      SetInFlight ops (self2\<lparr>current_version := version\<rparr>)
        (''Automatic: Start '' @ build_name self2 @ '' '' @ py_str version) = Inl e \<longrightarrow>
      fst (CreateNextLKGMCandidate ops self vf n) =
        Inl (raised_as ''Failed to generate LKGM Candidate. error: '' e)) \<and>
   (\<forall>v self1 e. GetCurrentVersionInfo ops self vf = Inr v \<and>
      LoadSpecs ops self v ''LKGM-candidates'' = Inr self1 \<and>
      truthy (latest_unprocessed self1) \<and>
      SetInFlight ops (self1\<lparr>current_version := latest_unprocessed self1\<rparr>)
        (''Automatic: Start '' @ build_name self1 @ '' '' @ py_str (latest_unprocessed self1)) =
        Inl e \<longrightarrow>
      fst (GetNextLKGMCandidate ops self vf n) =
        Inl (raised_as ''Failed to get next LKGM Candidate. error: '' e)) \<and>
   (\<forall>prefix msg.
      raised_as prefix (RunCommandError msg) = GenerateBuildSpecException (prefix @ msg) \<and>
      raised_as prefix (GitCommandException msg) = GenerateBuildSpecException (prefix @ msg)) \<and>
   (\<forall>prefix e.
      \<not> (\<exists>msg. e = RunCommandError msg) \<and> \<not> (\<exists>msg. e = GitCommandException msg) \<longrightarrow>
      raised_as prefix e = e)"
proof (intro conjI allI impI)
  show "CreateNextLKGMCandidate ops self vf n = CreateNextLKGMCandidate ops self vf 0"
    by (simp add: CreateNextLKGMCandidate_def)
  show "GetNextLKGMCandidate ops self vf n = GetNextLKGMCandidate ops self vf 0"
    by (simp add: GetNextLKGMCandidate_def)
  show "distinct (call_names (snd (snd (CreateNextLKGMCandidate ops self vf n))))"
    by (rule distinct_calls_Create)
  show "distinct (call_names (snd (snd (GetNextLKGMCandidate ops self vf n))))"
    by (rule distinct_calls_GetNext)
next
  fix e assume "fst (CreateNextLKGMCandidate_try ops self vf) = Inl e"
  then show "fst (CreateNextLKGMCandidate ops self vf n) =
        Inl (raised_as ''Failed to generate LKGM Candidate. error: '' e)"
    by (simp add: CreateNextLKGMCandidate_def fst_handle_failure)
next
  fix e assume "fst (GetNextLKGMCandidate_try ops self vf) = Inl e"
  then show "fst (GetNextLKGMCandidate ops self vf n) =
        Inl (raised_as ''Failed to get next LKGM Candidate. error: '' e)"
    by (simp add: GetNextLKGMCandidate_def fst_handle_failure)
next
  fix x assume "fst (CreateNextLKGMCandidate_try ops self vf) = Inr x"
  then show "fst (CreateNextLKGMCandidate ops self vf n) = Inr x"
    by (simp add: CreateNextLKGMCandidate_def fst_handle_failure)
next
  fix x assume "fst (GetNextLKGMCandidate_try ops self vf) = Inr x"
  then show "fst (GetNextLKGMCandidate ops self vf n) = Inr x"
    by (simp add: GetNextLKGMCandidate_def fst_handle_failure)
next
  fix e assume "GetCurrentVersionInfo ops self vf = Inl e"
  then show "fst (CreateNextLKGMCandidate ops self vf n) =
        Inl (raised_as ''Failed to generate LKGM Candidate. error: '' e)"
    and "fst (GetNextLKGMCandidate ops self vf n) =
        Inl (raised_as ''Failed to get next LKGM Candidate. error: '' e)"
    by (simp_all add: CreateNextLKGMCandidate_def GetNextLKGMCandidate_def fst_handle_failure
          CreateNextLKGMCandidate_try_def GetNextLKGMCandidate_try_def)
next
  fix v e
  assume "GetCurrentVersionInfo ops self vf = Inr v \<and>
      LoadSpecs ops self v ''LKGM-candidates'' = Inl e"
  then show "fst (CreateNextLKGMCandidate ops self vf n) =
        Inl (raised_as ''Failed to generate LKGM Candidate. error: '' e)"
    and "fst (GetNextLKGMCandidate ops self vf n) =
        Inl (raised_as ''Failed to get next LKGM Candidate. error: '' e)"
    by (simp_all add: CreateNextLKGMCandidate_def GetNextLKGMCandidate_def fst_handle_failure
          CreateNextLKGMCandidate_try_def GetNextLKGMCandidate_try_def)
next
  fix v self1 lkgm e
  assume "GetCurrentVersionInfo ops self vf = Inr v \<and>
      LoadSpecs ops self v ''LKGM-candidates'' = Inr self1 \<and>
      GetLatestLKGMCandidate ops self1 v = Inr lkgm \<and>
      CreateNewBuildSpec ops self1 lkgm = Inl e"
  then show "fst (CreateNextLKGMCandidate ops self vf n) =
        Inl (raised_as ''Failed to generate LKGM Candidate. error: '' e)"
    by (simp add: CreateNextLKGMCandidate_def fst_handle_failure CreateNextLKGMCandidate_try_def)
next
  fix v self1 lkgm version self2 e
  assume "GetCurrentVersionInfo ops self vf = Inr v \<and>
      LoadSpecs ops self v ''LKGM-candidates'' = Inr self1 \<and>
      GetLatestLKGMCandidate ops self1 v = Inr lkgm \<and>
      CreateNewBuildSpec ops self1 lkgm = Inr (version, self2) \<and>
      truthy version \<and>
      SetInFlight ops (self2\<lparr>current_version := version\<rparr>)
        (''Automatic: Start '' @ build_name self2 @ '' '' @ py_str version) = Inl e"
  then show "fst (CreateNextLKGMCandidate ops self vf n) =
        Inl (raised_as ''Failed to generate LKGM Candidate. error: '' e)"
    by (simp add: CreateNextLKGMCandidate_def fst_handle_failure CreateNextLKGMCandidate_try_def
          Let_def)
next
  fix v self1 e
  assume "GetCurrentVersionInfo ops self vf = Inr v \<and>
      LoadSpecs ops self v ''LKGM-candidates'' = Inr self1 \<and>
      truthy (latest_unprocessed self1) \<and>
      SetInFlight ops (self1\<lparr>current_version := latest_unprocessed self1\<rparr>)
        (''Automatic: Start '' @ build_name self1 @ '' '' @ py_str (latest_unprocessed self1)) =
        Inl e"
  then show "fst (GetNextLKGMCandidate ops self vf n) =
        Inl (raised_as ''Failed to get next LKGM Candidate. error: '' e)"
    by (simp add: GetNextLKGMCandidate_def fst_handle_failure GetNextLKGMCandidate_try_def
          Let_def)
next
  fix prefix msg
  show "raised_as prefix (RunCommandError msg) = GenerateBuildSpecException (prefix @ msg)"
    and "raised_as prefix (GitCommandException msg) = GenerateBuildSpecException (prefix @ msg)"
    by (simp_all add: raised_as_def)
next
  fix prefix e
  assume "\<not> (\<exists>msg. e = RunCommandError msg) \<and> \<not> (\<exists>msg. e = GitCommandException msg)"
  then show "raised_as prefix e = e"
    by (cases e) (simp_all add: raised_as_def)
qed

text \<open>
  A failing sync in the first step is wrapped by both entry points, and nothing is
  called a second time; so are a failing \<^verbatim>\<open>_LoadSpecs\<close>, a failing
  \<^verbatim>\<open>_CreateNewBuildSpec\<close> and a failing \<^verbatim>\<open>_SetInFlight\<close>, in either entry point. An
  \<^verbatim>\<open>IOError\<close> of the first step comes out as it is, and a run without failure returns
  the version.
\<close>

theorem generation_failures_witness:
  "fst (CreateNextLKGMCandidate (failing_ops (RunCommandError ''git remote update''))
          (manager_at [] PyNone) (PyStr ''chromeos_version.sh'') 3) =
     Inl (GenerateBuildSpecException ''Failed to generate LKGM Candidate. error: git remote update'') \<and>
   fst (GetNextLKGMCandidate (failing_ops (RunCommandError ''git remote update''))
          (manager_at [] PyNone) (PyStr ''chromeos_version.sh'') 3) =
     Inl (GenerateBuildSpecException ''Failed to get next LKGM Candidate. error: git remote update'') \<and>
   call_names (snd (snd (CreateNextLKGMCandidate (failing_ops (RunCommandError ''git remote update''))
          (manager_at [] PyNone) (PyStr ''chromeos_version.sh'') 3))) = [''_GetCurrentVersionInfo''] \<and>
   fst (CreateNextLKGMCandidate
          ((working_ops [] PyNone)\<lparr>LoadSpecs := (\<lambda>self v dir. Inl (GitCommandException ''fetch''))\<rparr>)
          (manager_at [] PyNone) (PyStr ''chromeos_version.sh'') 0) =
     Inl (GenerateBuildSpecException ''Failed to generate LKGM Candidate. error: fetch'') \<and>
   fst (CreateNextLKGMCandidate
          ((working_ops [''1.2.0.0''] PyNone)\<lparr>CreateNewBuildSpec :=
              (\<lambda>self r. Inl (GitCommandException ''push''))\<rparr>)
          (manager_at [] PyNone) (PyStr ''chromeos_version.sh'') 0) =
     Inl (GenerateBuildSpecException ''Failed to generate LKGM Candidate. error: push'') \<and>
   fst (CreateNextLKGMCandidate
          ((working_ops [''1.2.0.0''] (PyStr ''1.2.0.0-rc1''))\<lparr>SetInFlight :=
              (\<lambda>self message. Inl (GitCommandException ''push inflight''))\<rparr>)
          (manager_at [] PyNone) (PyStr ''chromeos_version.sh'') 0) =
     Inl (GenerateBuildSpecException ''Failed to generate LKGM Candidate. error: push inflight'') \<and>
   fst (GetNextLKGMCandidate
          ((working_ops [] PyNone)\<lparr>
              LoadSpecs := (\<lambda>self v dir. Inr (self\<lparr>latest_unprocessed := PyStr ''1.2.0.0-rc1''\<rparr>)),
              SetInFlight := (\<lambda>self message. Inl (RunCommandError ''git push''))\<rparr>)
          (manager_at [] PyNone) (PyStr ''chromeos_version.sh'') 0) =
     Inl (GenerateBuildSpecException ''Failed to get next LKGM Candidate. error: git push'') \<and>
   fst (CreateNextLKGMCandidate (failing_ops (OtherError ''IOError''))
          (manager_at [] PyNone) (PyStr ''chromeos_version.sh'') 0) = Inl (OtherError ''IOError'') \<and>
   fst (CreateNextLKGMCandidate (working_ops [''1.2.0.0''] (PyStr ''1.2.0.0-rc1''))
          (manager_at [] PyNone) (PyStr ''chromeos_version.sh'') 0) = Inr (PyStr ''1.2.0.0-rc1'') \<and>
   fst (GetNextLKGMCandidate (working_ops [] PyNone)
          (manager_at [] PyNone) (PyStr ''chromeos_version.sh'') 0) = Inr PyNone"
proof -
  let ?m = "manager_at [] PyNone"
  let ?f = "PyStr ''chromeos_version.sh''"
  let ?v = "\<lparr>ver_maj = 1, ver_min = 2, ver_sp = 0, ver_patch = 0\<rparr>"
  let ?ops1 = "failing_ops (RunCommandError ''git remote update'')"
  let ?ops2 = "(working_ops [] PyNone)\<lparr>LoadSpecs := (\<lambda>self v dir. Inl (GitCommandException ''fetch''))\<rparr>"
  let ?ops4 = "(working_ops [''1.2.0.0''] PyNone)\<lparr>CreateNewBuildSpec :=
              (\<lambda>self r. Inl (GitCommandException ''push''))\<rparr>"
  let ?ops5 = "(working_ops [''1.2.0.0''] (PyStr ''1.2.0.0-rc1''))\<lparr>SetInFlight :=
              (\<lambda>self message. Inl (GitCommandException ''push inflight''))\<rparr>"
  let ?ops6 = "(working_ops [] PyNone)\<lparr>
              LoadSpecs := (\<lambda>self v dir. Inr (self\<lparr>latest_unprocessed := PyStr ''1.2.0.0-rc1''\<rparr>)),
              SetInFlight := (\<lambda>self message. Inl (RunCommandError ''git push''))\<rparr>"
  let ?ops7 = "failing_ops (OtherError ''IOError'')"
  let ?ops8 = "working_ops [''1.2.0.0''] (PyStr ''1.2.0.0-rc1'')"
  let ?ops9 = "working_ops [] PyNone"
  let ?m1 = "?m\<lparr>all := [''1.2.0.0'']\<rparr>"
  let ?m6 = "?m\<lparr>latest_unprocessed := PyStr ''1.2.0.0-rc1''\<rparr>"
  have h1: "GetCurrentVersionInfo ?ops1 ?m ?f = Inl (RunCommandError ''git remote update'')"
    by (simp add: failing_ops_def)
  have h2: "GetCurrentVersionInfo ?ops2 ?m ?f = Inr ?v \<and>
            LoadSpecs ?ops2 ?m ?v ''LKGM-candidates'' = Inl (GitCommandException ''fetch'')"
    by (simp add: working_ops_def)
  have l4: "GetLatestLKGMCandidate ?ops4 ?m1 ?v = Inr (RetList [''1.2.0.0''])"
    by code_simp
  have h4: "GetCurrentVersionInfo ?ops4 ?m ?f = Inr ?v \<and>
            LoadSpecs ?ops4 ?m ?v ''LKGM-candidates'' = Inr ?m1 \<and>
            GetLatestLKGMCandidate ?ops4 ?m1 ?v = Inr (RetList [''1.2.0.0'']) \<and>
            CreateNewBuildSpec ?ops4 ?m1 (RetList [''1.2.0.0'']) = Inl (GitCommandException ''push'')"
    using l4 by (simp add: working_ops_def)
  have l5: "GetLatestLKGMCandidate ?ops5 ?m1 ?v = Inr (RetList [''1.2.0.0''])"
    by code_simp
  have h5: "GetCurrentVersionInfo ?ops5 ?m ?f = Inr ?v \<and>
            LoadSpecs ?ops5 ?m ?v ''LKGM-candidates'' = Inr ?m1 \<and>
            GetLatestLKGMCandidate ?ops5 ?m1 ?v = Inr (RetList [''1.2.0.0'']) \<and>
            CreateNewBuildSpec ?ops5 ?m1 (RetList [''1.2.0.0'']) = Inr (PyStr ''1.2.0.0-rc1'', ?m1) \<and>
            truthy (PyStr ''1.2.0.0-rc1'') \<and>
            SetInFlight ?ops5 (?m1\<lparr>current_version := PyStr ''1.2.0.0-rc1''\<rparr>)
              (''Automatic: Start '' @ build_name ?m1 @ '' '' @ py_str (PyStr ''1.2.0.0-rc1'')) =
              Inl (GitCommandException ''push inflight'')"
    using l5 by (simp add: working_ops_def)
  have h6: "GetCurrentVersionInfo ?ops6 ?m ?f = Inr ?v \<and>
            LoadSpecs ?ops6 ?m ?v ''LKGM-candidates'' = Inr ?m6 \<and>
            truthy (latest_unprocessed ?m6) \<and>
            SetInFlight ?ops6 (?m6\<lparr>current_version := latest_unprocessed ?m6\<rparr>)
              (''Automatic: Start '' @ build_name ?m6 @ '' '' @ py_str (latest_unprocessed ?m6)) =
              Inl (RunCommandError ''git push'')"
    by (simp add: working_ops_def)
  have h7: "GetCurrentVersionInfo ?ops7 ?m ?f = Inl (OtherError ''IOError'')"
    by (simp add: failing_ops_def)
  have other: "\<not> (\<exists>msg. OtherError ''IOError'' = RunCommandError msg) \<and>
               \<not> (\<exists>msg. OtherError ''IOError'' = GitCommandException msg)"
    by simp
  have t8: "fst (CreateNextLKGMCandidate_try ?ops8 ?m ?f) = Inr (PyStr ''1.2.0.0-rc1'')"
    by code_simp
  have t9: "fst (GetNextLKGMCandidate_try ?ops9 ?m ?f) = Inr PyNone"
    by code_simp
  have c: "call_names (snd (snd (CreateNextLKGMCandidate ?ops1 ?m ?f 3))) = [''_GetCurrentVersionInfo'']"
    by code_simp
  note g1 = generation_failures [of ?ops1 ?m ?f 3]
  note g2 = generation_failures [of ?ops2 ?m ?f 0]
  note g4 = generation_failures [of ?ops4 ?m ?f 0]
  note g5 = generation_failures [of ?ops5 ?m ?f 0]
  note g6 = generation_failures [of ?ops6 ?m ?f 0]
  note g7 = generation_failures [of ?ops7 ?m ?f 0]
  note g8 = generation_failures [of ?ops8 ?m ?f 0]
  note g9 = generation_failures [of ?ops9 ?m ?f 0]
  have w: "raised_as p (RunCommandError msg) = GenerateBuildSpecException (p @ msg)"
    "raised_as p (GitCommandException msg) = GenerateBuildSpecException (p @ msg)"
    for p msg
    using g1 by blast+
  have u: "raised_as p (OtherError ''IOError'') = OtherError ''IOError''" for p
    using g1 other by blast
  have r1: "fst (CreateNextLKGMCandidate ?ops1 ?m ?f 3) =
              Inl (raised_as ''Failed to generate LKGM Candidate. error: '' (RunCommandError ''git remote update''))"
    and r1': "fst (GetNextLKGMCandidate ?ops1 ?m ?f 3) =
              Inl (raised_as ''Failed to get next LKGM Candidate. error: '' (RunCommandError ''git remote update''))"
    using g1 h1 by blast+
  have r2: "fst (CreateNextLKGMCandidate ?ops2 ?m ?f 0) =
              Inl (raised_as ''Failed to generate LKGM Candidate. error: '' (GitCommandException ''fetch''))"
    using g2 h2 by blast
  have r4: "fst (CreateNextLKGMCandidate ?ops4 ?m ?f 0) =
              Inl (raised_as ''Failed to generate LKGM Candidate. error: '' (GitCommandException ''push''))"
    using g4 h4 by blast
  have r5: "fst (CreateNextLKGMCandidate ?ops5 ?m ?f 0) =
              Inl (raised_as ''Failed to generate LKGM Candidate. error: '' (GitCommandException ''push inflight''))"
    using g5 h5 by blast
  have r6: "fst (GetNextLKGMCandidate ?ops6 ?m ?f 0) =
              Inl (raised_as ''Failed to get next LKGM Candidate. error: '' (RunCommandError ''git push''))"
    using g6 h6 by blast
  have r7: "fst (CreateNextLKGMCandidate ?ops7 ?m ?f 0) =
              Inl (raised_as ''Failed to generate LKGM Candidate. error: '' (OtherError ''IOError''))"
    using g7 h7 by blast
  have r8: "fst (CreateNextLKGMCandidate ?ops8 ?m ?f 0) = Inr (PyStr ''1.2.0.0-rc1'')"
    using g8 t8 by simp
  have r9: "fst (GetNextLKGMCandidate ?ops9 ?m ?f 0) = Inr PyNone"
    using g9 t9 by simp
  show ?thesis
    using c r1 r1' r2 r4 r5 r6 r7 r8 r9 unfolding w u by simp
qed

text \<open>
  C8 as the spec states it, with every failure wrapped, fails when the version file
  cannot be read or cannot be parsed and the collaborator raises an \<^verbatim>\<open>IOError\<close> or a
  malformed-version error: both entry points let it pass unwrapped.
\<close>

theorem generation_failure_unwrapped:
  "fst (CreateNextLKGMCandidate (failing_ops (OtherError ''IOError: chromeos_version.sh''))
          (manager_at [] PyNone) (PyStr ''chromeos_version.sh'') 0) =
     Inl (OtherError ''IOError: chromeos_version.sh'') \<and>
   fst (GetNextLKGMCandidate (failing_ops (OtherError ''IOError: chromeos_version.sh''))
          (manager_at [] PyNone) (PyStr ''chromeos_version.sh'') 0) =
     Inl (OtherError ''IOError: chromeos_version.sh'') \<and>
   fst (CreateNextLKGMCandidate (failing_ops MalformedVersion)
          (manager_at [] PyNone) (PyStr ''chromeos_version.sh'') 0) = Inl MalformedVersion \<and>
   fst (GetNextLKGMCandidate (failing_ops MalformedVersion)
          (manager_at [] PyNone) (PyStr ''chromeos_version.sh'') 0) = Inl MalformedVersion"
  by code_simp

section \<open>Claims about GetOthersStatuses\<close>

text \<open>The marker checks are ordered: pass, then fail, then inflight.\<close>

lemma marker_status_order:
  "marker_status True has_fail has_inflight = StatusPass \<and>
   marker_status False True has_inflight = StatusFail \<and>
   marker_status False False True = StatusInflight \<and>
   marker_status False False False = StatusNone"
  by (simp add: marker_status_def)

text \<open>
  A template in which a \<^verbatim>\<open>%\<close> is followed by \<^verbatim>\<open>{\<close>, after a text without \<^verbatim>\<open>%\<close>, cannot
  be formatted.
\<close>

lemma py_format_brace:
  assumes "CHR ''%'' \<notin> set pre"
  shows "py_format (pre @ ''%{'' @ rest) d = Inl ValueError"
  using assms unfolding py_format_def
  by (induction pre) (auto simp: flag_chars_def conversion_chars_def)

text \<open>
  Joining path components none of which is absolute keeps the first one in front.
\<close>

lemma os_path_join_relative:
  assumes "list_all (\<lambda>b. take 1 b \<noteq> ''/'') p"
  shows "\<exists>t. os_path_join path p = path @ t"
  using assms
proof (induction p arbitrary: path)
  case Nil
  then show ?case by simp
next
  case (Cons b p)
  then have rel: "take 1 b \<noteq> ''/''" and rest: "list_all (\<lambda>b. take 1 b \<noteq> ''/'') p"
    by simp_all
  let ?next = "if path = [] \<or> last path = CHR ''/'' then path @ b else path @ ''/'' @ b"
  obtain t where "os_path_join ?next p = ?next @ t"
    using Cons.IH [OF rest] by blast
  then show ?case
    using rel by (cases "path = [] \<or> last path = CHR ''/''") auto
qed

lemma specs_for_build_template:
  "\<exists>pre. os_path_join root [''LKGM-candidates'', ''build-name'', ''%{build_name}s''] =
           pre @ ''%{build_name}s'' \<and>
         (CHR ''%'' \<in> set pre) = (CHR ''%'' \<in> set root)"
proof (cases "root = [] \<or> last root = CHR ''/''")
  case True
  then have "os_path_join root [''LKGM-candidates'', ''build-name'', ''%{build_name}s''] =
      (root @ ''LKGM-candidates/build-name/'') @ ''%{build_name}s''"
    by simp
  moreover have "(CHR ''%'' \<in> set (root @ ''LKGM-candidates/build-name/'')) = (CHR ''%'' \<in> set root)"
    by simp
  ultimately show ?thesis
    by (intro exI [of _ "root @ ''LKGM-candidates/build-name/''"] conjI)
next
  case False
  then have "os_path_join root [''LKGM-candidates'', ''build-name'', ''%{build_name}s''] =
      (root @ ''/LKGM-candidates/build-name/'') @ ''%{build_name}s''"
    by simp
  moreover have "(CHR ''%'' \<in> set (root @ ''/LKGM-candidates/build-name/'')) = (CHR ''%'' \<in> set root)"
    by simp
  ultimately show ?thesis
    by (intro exI [of _ "root @ ''/LKGM-candidates/build-name/''"] conjI)
qed

text \<open>
  Every marker template that \<^verbatim>\<open>GetOthersStatuses\<close> builds from a manifest directory
  without \<^verbatim>\<open>%\<close> and from a directory prefix and a file name that are not absolute
  raises \<open>ValueError\<close> when formatted.
\<close>

lemma marker_template_unformattable:
  assumes "CHR ''%'' \<notin> set root" and "take 1 dir_pfx \<noteq> ''/''" and "take 1 xml_name \<noteq> ''/''"
    and "take 1 status \<noteq> ''/''"
  shows "py_format
           (os_path_join
              (os_path_join root [''LKGM-candidates'', ''build-name'', ''%{build_name}s''])
              [status, dir_pfx, xml_name]) d = Inl ValueError"
proof -
  obtain pre where pre: "os_path_join root [''LKGM-candidates'', ''build-name'', ''%{build_name}s'']
      = pre @ ''%{build_name}s''" and clean: "CHR ''%'' \<notin> set pre"
    using specs_for_build_template [of root] assms(1) by auto
  have "list_all (\<lambda>b. take 1 b \<noteq> ''/'') [status, dir_pfx, xml_name]"
    using assms by simp
  then obtain t where "os_path_join (pre @ ''%{build_name}s'') [status, dir_pfx, xml_name]
      = (pre @ ''%{build_name}s'') @ t"
    using os_path_join_relative by blast
  then have "os_path_join (pre @ ''%{build_name}s'') [status, dir_pfx, xml_name]
      = pre @ ''%{'' @ (''build_name}s'' @ t)"
    by simp
  then show ?thesis
    unfolding pre using py_format_brace [OF clean] by simp
qed

text \<open>
  A round whose first peer has no status yet and whose pass template cannot be
  formatted ends the loop with the exception of the format.
\<close>

lemma poll_loop_format_error:
  assumes "py_format pass_file [''build-name'' \<mapsto> other] = Inl err"
    and "sync_error e (clock st) = None"
    and "clock st - start_time < MAX_TIMEOUT_SECONDS"
    and "other_statuses st other = None"
  shows "poll_loop e self pass_file fail_file inflight_file (other # others) start_time st =
           Some (Inl err)"
proof -
  let ?st1 = "st\<lparr>clock := clock st + sync_cost e, events := events st @ [Synced (manifests_dir self)]\<rparr>"
  have sync: "SyncGitRepo e (manifests_dir self) st = Inr ?st1"
    using assms(2) by (simp add: SyncGitRepo_def)
  have other: "poll_other e pass_file fail_file inflight_file ?st1 other = Inl err"
    using assms(1,4) by (simp add: poll_other_def)
  have round: "poll_round e self pass_file fail_file inflight_file (other # others) st = Inl err"
    by (simp add: poll_round_def sync other)
  show ?thesis
    using assms(3) by (subst poll_loop.simps) (simp add: round)
qed

text \<open>
  Hence a call with at least one peer, in a world where the first sync succeeds,
  raises \<open>ValueError\<close> in its first round whatever markers exist.
\<close>

lemma GetOthersStatuses_raises:
  assumes "current_version self = PyVersion ver dir_pfx"
    and "CHR ''%'' \<notin> set (manifest_dir self)"
    and "take 1 dir_pfx \<noteq> ''/''" and "take 1 ver \<noteq> ''/''"
    and "sync_error e now = None"
  shows "GetOthersStatuses e self (other # others) now = Some (Inl ValueError)"
proof -
  define specs where
    "specs = os_path_join (manifest_dir self) [''LKGM-candidates'', ''build-name'', ''%{build_name}s'']"
  define pass_file where "pass_file = os_path_join specs [''pass'', dir_pfx, ver @ ''.xml'']"
  define fail_file where "fail_file = os_path_join specs [''fail'', dir_pfx, ver @ ''.xml'']"
  define inflight_file where
    "inflight_file = os_path_join specs [''inflight'', dir_pfx, ver @ ''.xml'']"
  define st0 where
    "st0 = \<lparr>clock = now, other_statuses = (Map.empty :: string \<rightharpoonup> py_status),
            num_complete = 0, events = []\<rparr>"
  have xml: "take 1 (ver @ ''.xml'') \<noteq> ''/''"
    using assms(4) by (cases ver) simp_all
  have fmt: "py_format pass_file [''build-name'' \<mapsto> other] = Inl ValueError"
    unfolding pass_file_def specs_def
    using assms(2,3) xml by (intro marker_template_unformattable) simp_all
  have loop: "poll_loop e self pass_file fail_file inflight_file (other # others) now st0 =
                Some (Inl ValueError)"
    using fmt assms(5)
    by (intro poll_loop_format_error) (simp_all add: st0_def MAX_TIMEOUT_SECONDS_def)
  have "GetOthersStatuses e self (other # others) now =
          (case poll_loop e self pass_file fail_file inflight_file (other # others) now st0 of
             None \<Rightarrow> None
           | Some (Inl err) \<Rightarrow> Some (Inl err)
           | Some (Inr st) \<Rightarrow>
               Some (Inr (if num_complete st \<noteq> length (other # others) then
                            st\<lparr>events := events st @
                                [Logged ''error''
                                   ''Not all builds finished before MAX_TIMEOUT reached.'']\<rparr>
                          else st)))"
    unfolding GetOthersStatuses_def pass_file_def fail_file_def inflight_file_def specs_def st0_def
    using assms(1) by (simp only: py_add_str.simps DirPrefix.simps sum.case Let_def)
  then show ?thesis
    by (simp only: loop option.case sum.case)
qed

text \<open>When the current version is a string, the call raises before it polls.\<close>

lemma GetOthersStatuses_string: 
  "current_version self = PyStr ver \<Longrightarrow> GetOthersStatuses e self others now = Some (Inl AttributeError)"
  by (simp add: GetOthersStatuses_def)

text \<open>
  C3. Peers \<^verbatim>\<open>A\<close> and \<^verbatim>\<open>B\<close> both have their pass marker in the store, at the path of
  the spec. The call does not return the mapping of both to pass: with the current
  version a string, as \<^verbatim>\<open>CreateNextLKGMCandidate\<close> documents it, it raises
  \<open>AttributeError\<close> at \<^verbatim>\<open>DirPrefix\<close>; with a version object it raises \<open>ValueError\<close>
  when it formats the first marker path. Nor does the loop end with the round in
  which every peer is complete: with no peers at all, and with a peer found complete
  in the first round (a file name that is absolute, so that the template has no
  \<^verbatim>\<open>%\<close>), the call keeps syncing, without sleeping, until the 300 seconds are over.
\<close>

theorem GetOthersStatuses_all_pass:
  "outcome [''A'', ''B'']
     (GetOthersStatuses
        (world_with [spec_marker_path ''/manifests'' ''A'' ''pass'' ''1.2'' ''1.2.0.0-rc1'',
                     spec_marker_path ''/manifests'' ''B'' ''pass'' ''1.2'' ''1.2.0.0-rc1''])
        (manager_at [] (PyStr ''1.2.0.0-rc1'')) [''A'', ''B''] 0) = Some (Inl AttributeError) \<and>
   outcome [''A'', ''B'']
     (GetOthersStatuses
        (world_with [spec_marker_path ''/manifests'' ''A'' ''pass'' ''1.2'' ''1.2.0.0-rc1'',
                     spec_marker_path ''/manifests'' ''B'' ''pass'' ''1.2'' ''1.2.0.0-rc1''])
        (manager_at [] (PyVersion ''1.2.0.0-rc1'' ''1.2'')) [''A'', ''B''] 0) = Some (Inl ValueError) \<and>
   outcome []
     (GetOthersStatuses (world_with []) (manager_at [] (PyVersion ''1.2.0.0-rc1'' ''1.2'')) [] 0) =
     Some (Inr ([], 300, [Synced ''/manifests'', Synced ''/manifests'', Synced ''/manifests''])) \<and>
   outcome [''A'']
     (GetOthersStatuses (world_with [''/1.2.0.0-rc1.xml''])
        (manager_at [] (PyVersion ''/1.2.0.0-rc1'' ''1.2'')) [''A''] 0) =
     Some (Inr ([Some StatusPass], 300,
                [Synced ''/manifests'', Synced ''/manifests'', Synced ''/manifests'']))"
proof (intro conjI)
  show "outcome [''A'', ''B'']
     (GetOthersStatuses
        (world_with [spec_marker_path ''/manifests'' ''A'' ''pass'' ''1.2'' ''1.2.0.0-rc1'',
                     spec_marker_path ''/manifests'' ''B'' ''pass'' ''1.2'' ''1.2.0.0-rc1''])
        (manager_at [] (PyStr ''1.2.0.0-rc1'')) [''A'', ''B''] 0) = Some (Inl AttributeError)"
    by code_simp
  show "outcome [''A'', ''B'']
     (GetOthersStatuses
        (world_with [spec_marker_path ''/manifests'' ''A'' ''pass'' ''1.2'' ''1.2.0.0-rc1'',
                     spec_marker_path ''/manifests'' ''B'' ''pass'' ''1.2'' ''1.2.0.0-rc1''])
        (manager_at [] (PyVersion ''1.2.0.0-rc1'' ''1.2'')) [''A'', ''B''] 0) = Some (Inl ValueError)"
    by code_simp
  show "outcome []
     (GetOthersStatuses (world_with []) (manager_at [] (PyVersion ''1.2.0.0-rc1'' ''1.2'')) [] 0) =
     Some (Inr ([], 300, [Synced ''/manifests'', Synced ''/manifests'', Synced ''/manifests'']))"
    by code_simp
  show "outcome [''A'']
     (GetOthersStatuses (world_with [''/1.2.0.0-rc1.xml''])
        (manager_at [] (PyVersion ''/1.2.0.0-rc1'' ''1.2'')) [''A''] 0) =
     Some (Inr ([Some StatusPass], 300,
                [Synced ''/manifests'', Synced ''/manifests'', Synced ''/manifests'']))"
    by code_simp
qed

text \<open>
  C6. For the peer \<^verbatim>\<open>A\<close> and the candidate \<^verbatim>\<open>1.2.0.0-rc1\<close> the pass template that the
  code builds is the path of the spec with \<^verbatim>\<open>%{build_name}s\<close> in the place of the
  builder. Formatting it with \<^verbatim>\<open>{'build-name': 'A'}\<close> raises \<open>ValueError\<close>, where the
  template \<^verbatim>\<open>%(build-name)s\<close> would give the path of the spec: the name of the peer is
  never substituted, no marker is looked up, and the call raises although the marker
  exists.
\<close>

theorem GetOthersStatuses_marker_path:
  "os_path_join
     (os_path_join ''/manifests'' [''LKGM-candidates'', ''build-name'', ''%{build_name}s''])
     [''pass'', ''1.2'', ''1.2.0.0-rc1.xml''] =
     ''/manifests/LKGM-candidates/build-name/%{build_name}s/pass/1.2/1.2.0.0-rc1.xml'' \<and>
   py_format ''/manifests/LKGM-candidates/build-name/%{build_name}s/pass/1.2/1.2.0.0-rc1.xml''
     [''build-name'' \<mapsto> ''A''] = Inl ValueError \<and>
   py_format ''/manifests/LKGM-candidates/build-name/%(build-name)s/pass/1.2/1.2.0.0-rc1.xml''
     [''build-name'' \<mapsto> ''A''] =
     Inr (spec_marker_path ''/manifests'' ''A'' ''pass'' ''1.2'' ''1.2.0.0-rc1'') \<and>
   outcome [''A'']
     (GetOthersStatuses
        (world_with [spec_marker_path ''/manifests'' ''A'' ''pass'' ''1.2'' ''1.2.0.0-rc1''])
        (manager_at [] (PyVersion ''1.2.0.0-rc1'' ''1.2'')) [''A''] 0) = Some (Inl ValueError)"
proof (intro conjI)
  show "os_path_join
     (os_path_join ''/manifests'' [''LKGM-candidates'', ''build-name'', ''%{build_name}s''])
     [''pass'', ''1.2'', ''1.2.0.0-rc1.xml''] =
     ''/manifests/LKGM-candidates/build-name/%{build_name}s/pass/1.2/1.2.0.0-rc1.xml''"
    by code_simp
  show "py_format ''/manifests/LKGM-candidates/build-name/%{build_name}s/pass/1.2/1.2.0.0-rc1.xml''
     [''build-name'' \<mapsto> ''A''] = Inl ValueError"
    by code_simp
  show "py_format ''/manifests/LKGM-candidates/build-name/%(build-name)s/pass/1.2/1.2.0.0-rc1.xml''
     [''build-name'' \<mapsto> ''A''] =
     Inr (spec_marker_path ''/manifests'' ''A'' ''pass'' ''1.2'' ''1.2.0.0-rc1'')"
    by code_simp
  show "outcome [''A'']
     (GetOthersStatuses
        (world_with [spec_marker_path ''/manifests'' ''A'' ''pass'' ''1.2'' ''1.2.0.0-rc1''])
        (manager_at [] (PyVersion ''1.2.0.0-rc1'' ''1.2'')) [''A''] 0) = Some (Inl ValueError)"
    by code_simp
qed

text \<open>
  C7. The peer \<^verbatim>\<open>A\<close> is stuck in flight: only its inflight marker exists, for good.
  The call does not come back with the partial snapshot once the 300 seconds are
  over; it raises in its first round, \<open>ValueError\<close> from the format of the marker
  path (or \<open>AttributeError\<close> before that, with the current version a string).
\<close>

theorem GetOthersStatuses_stuck_inflight:
  "outcome [''A'']
     (GetOthersStatuses
        (world_with [spec_marker_path ''/manifests'' ''A'' ''inflight'' ''1.2'' ''1.2.0.0-rc1''])
        (manager_at [] (PyVersion ''1.2.0.0-rc1'' ''1.2'')) [''A''] 0) = Some (Inl ValueError) \<and>
   outcome [''A'']
     (GetOthersStatuses
        (world_with [spec_marker_path ''/manifests'' ''A'' ''inflight'' ''1.2'' ''1.2.0.0-rc1''])
        (manager_at [] (PyStr ''1.2.0.0-rc1'')) [''A''] 0) = Some (Inl AttributeError)"
proof (intro conjI)
  show "outcome [''A'']
     (GetOthersStatuses
        (world_with [spec_marker_path ''/manifests'' ''A'' ''inflight'' ''1.2'' ''1.2.0.0-rc1''])
        (manager_at [] (PyVersion ''1.2.0.0-rc1'' ''1.2'')) [''A''] 0) = Some (Inl ValueError)"
    by code_simp
  show "outcome [''A'']
     (GetOthersStatuses
        (world_with [spec_marker_path ''/manifests'' ''A'' ''inflight'' ''1.2'' ''1.2.0.0-rc1''])
        (manager_at [] (PyStr ''1.2.0.0-rc1'')) [''A''] 0) = Some (Inl AttributeError)"
    by code_simp
qed

text \<open>
  C10. The peer \<^verbatim>\<open>A\<close> has a pass and a fail marker, the peer \<^verbatim>\<open>B\<close> a fail and an
  inflight marker. The chain of checks would give pass for \<^verbatim>\<open>A\<close> and fail for \<^verbatim>\<open>B\<close>,
  but the call returns no status for either: it raises when it formats the first
  marker path.
\<close>

theorem GetOthersStatuses_marker_precedence:
  "marker_status True True False = StatusPass \<and>
   marker_status False True True = StatusFail \<and>
   outcome [''A'', ''B'']
     (GetOthersStatuses
        (world_with [spec_marker_path ''/manifests'' ''A'' ''pass'' ''1.2'' ''1.2.0.0-rc1'',
                     spec_marker_path ''/manifests'' ''A'' ''fail'' ''1.2'' ''1.2.0.0-rc1'',
                     spec_marker_path ''/manifests'' ''B'' ''fail'' ''1.2'' ''1.2.0.0-rc1'',
                     spec_marker_path ''/manifests'' ''B'' ''inflight'' ''1.2'' ''1.2.0.0-rc1''])
        (manager_at [] (PyVersion ''1.2.0.0-rc1'' ''1.2'')) [''A'', ''B''] 0) = Some (Inl ValueError) \<and>
   outcome [''A'', ''B'']
     (GetOthersStatuses
        (world_with [spec_marker_path ''/manifests'' ''A'' ''pass'' ''1.2'' ''1.2.0.0-rc1'',
                     spec_marker_path ''/manifests'' ''A'' ''fail'' ''1.2'' ''1.2.0.0-rc1'',
                     spec_marker_path ''/manifests'' ''B'' ''fail'' ''1.2'' ''1.2.0.0-rc1'',
                     spec_marker_path ''/manifests'' ''B'' ''inflight'' ''1.2'' ''1.2.0.0-rc1''])
        (manager_at [] (PyStr ''1.2.0.0-rc1'')) [''A'', ''B''] 0) = Some (Inl AttributeError)"
proof (intro conjI)
  show "marker_status True True False = StatusPass"
    by (simp add: marker_status_def)
  show "marker_status False True True = StatusFail"
    by (simp add: marker_status_def)
  show "outcome [''A'', ''B'']
     (GetOthersStatuses
        (world_with [spec_marker_path ''/manifests'' ''A'' ''pass'' ''1.2'' ''1.2.0.0-rc1'',
                     spec_marker_path ''/manifests'' ''A'' ''fail'' ''1.2'' ''1.2.0.0-rc1'',
                     spec_marker_path ''/manifests'' ''B'' ''fail'' ''1.2'' ''1.2.0.0-rc1'',
                     spec_marker_path ''/manifests'' ''B'' ''inflight'' ''1.2'' ''1.2.0.0-rc1''])
        (manager_at [] (PyVersion ''1.2.0.0-rc1'' ''1.2'')) [''A'', ''B''] 0) = Some (Inl ValueError)"
    by code_simp
  show "outcome [''A'', ''B'']
     (GetOthersStatuses
        (world_with [spec_marker_path ''/manifests'' ''A'' ''pass'' ''1.2'' ''1.2.0.0-rc1'',
                     spec_marker_path ''/manifests'' ''A'' ''fail'' ''1.2'' ''1.2.0.0-rc1'',
                     spec_marker_path ''/manifests'' ''B'' ''fail'' ''1.2'' ''1.2.0.0-rc1'',
                     spec_marker_path ''/manifests'' ''B'' ''inflight'' ''1.2'' ''1.2.0.0-rc1''])
        (manager_at [] (PyStr ''1.2.0.0-rc1'')) [''A'', ''B''] 0) = Some (Inl AttributeError)"
    by code_simp
qed

end
